theory Spec2Isabelle
  imports Complex_Main
begin

section \<open>Domain types (src/shared/types/focus.ts)\<close>

text \<open>
  A JavaScript \<open>number\<close> is modelled as a \<open>real\<close>: timestamps, pixel coordinates,
  configuration values and confidences are exact, so \<open>0.95 - 0.15 - 0.15\<close> is \<open>0.65\<close>.
  Infinite values and the rounding of IEEE doubles are outside the model. The pointer
  coordinates of a signal may also be \<open>NaN\<close> (type \<open>coordinate\<close>); display
  bounds, timestamps and configuration values are numbers. Counters that start at zero
  and are only incremented are \<open>nat\<close>.
  A \<open>ScreenId\<close> is a string; \<open>null\<close> and \<open>undefined\<close> are \<open>None\<close>.
  Record fields carry a prefix where two interfaces of the source share a field name.
\<close>

type_synonym ScreenId = string

record DisplayBounds =
  db_screenId :: ScreenId
  db_x :: real
  db_y :: real
  db_width :: real
  db_height :: real
  db_dpiScale :: real

datatype SignalType =
  Manual | Click | DragStart | DragEnd | DoubleClick | WindowFocus
  | Typing | Scroll | Gesture | Hover | PointerMove

text \<open>\<open>SIGNAL_PRIORITY\<close>: lower number = higher priority.\<close>

fun SIGNAL_PRIORITY :: "SignalType \<Rightarrow> real" where
  "SIGNAL_PRIORITY Manual = 0"
| "SIGNAL_PRIORITY Click = 1"
| "SIGNAL_PRIORITY DragStart = 1"
| "SIGNAL_PRIORITY DragEnd = 2"
| "SIGNAL_PRIORITY DoubleClick = 1"
| "SIGNAL_PRIORITY WindowFocus = 3"
| "SIGNAL_PRIORITY Typing = 4"
| "SIGNAL_PRIORITY Scroll = 5"
| "SIGNAL_PRIORITY Gesture = 6"
| "SIGNAL_PRIORITY Hover = 7"
| "SIGNAL_PRIORITY PointerMove = 8"

fun BASE_CONFIDENCE :: "SignalType \<Rightarrow> real" where
  "BASE_CONFIDENCE Manual = 100 / 100"
| "BASE_CONFIDENCE Click = 95 / 100"
| "BASE_CONFIDENCE DragStart = 95 / 100"
| "BASE_CONFIDENCE DragEnd = 85 / 100"
| "BASE_CONFIDENCE DoubleClick = 95 / 100"
| "BASE_CONFIDENCE WindowFocus = 90 / 100"
| "BASE_CONFIDENCE Typing = 90 / 100"
| "BASE_CONFIDENCE Scroll = 85 / 100"
| "BASE_CONFIDENCE Gesture = 85 / 100"
| "BASE_CONFIDENCE Hover = 70 / 100"
| "BASE_CONFIDENCE PointerMove = 40 / 100"

text \<open>
  The fallbacks \<open>SIGNAL_PRIORITY[t] ?? 99\<close>, \<open>BASE_CONFIDENCE[t] ?? 0.40\<close> and the
  \<open>default:\<close> branch of \<open>getDwellMs\<close> are reached only by a value outside the enum,
  which the type \<open>SignalType\<close> excludes; both tables are total on the enum.
\<close>

datatype coordinate = Num real | NaN

record IntentSignal =
  sig_type :: SignalType
  sig_screenId :: ScreenId
  sig_x :: coordinate
  sig_y :: coordinate
  sig_timestampMs :: real
  sig_speedPxPerS :: "real option"
  sig_windowDisplayId :: "ScreenId option"

record FocusChangeEvent =
  ev_sessionId :: string
  ev_screenId :: ScreenId
  ev_reason :: SignalType
  ev_confidence :: real
  ev_dwellMs :: real
  ev_sequence :: nat
  ev_timestampMs :: real

datatype FocusMode = ModeAuto | ModeManual | ModeFrozen

record FocusStateSnapshot =
  snap_activeScreenId :: ScreenId
  snap_mode :: FocusMode
  snap_frozen :: bool
  snap_sequence :: nat
  snap_timestampMs :: real

record FocusConfig =
  maxScreens :: real
  switchThreshold :: real
  stayThreshold :: real
  cooldownMs :: real
  idleMs :: real
  idleMotionPxPerS :: real
  clickDwellMs :: real
  typingDwellMs :: real
  scrollDwellMs :: real
  hoverDwellMs :: real
  movementDwellMs :: real
  movementSpeedHighPxPerS :: real
  hoverRadiusPx :: real
  resumeGraceMs :: real

definition DEFAULT_FOCUS_CONFIG :: FocusConfig where
  "DEFAULT_FOCUS_CONFIG =
     \<lparr> maxScreens = 3,
       switchThreshold = 80 / 100,
       stayThreshold = 50 / 100,
       cooldownMs = 500,
       idleMs = 2000,
       idleMotionPxPerS = 5,
       clickDwellMs = 300,
       typingDwellMs = 300,
       scrollDwellMs = 300,
       hoverDwellMs = 500,
       movementDwellMs = 800,
       movementSpeedHighPxPerS = 1200,
       hoverRadiusPx = 8,
       resumeGraceMs = 300 \<rparr>"

text \<open>
  \<open>Partial<FocusConfig>\<close>: every key may be absent (\<open>None\<close>). The object spread
  \<open>{ ...DEFAULT_FOCUS_CONFIG, ...config }\<close> takes a key of \<open>config\<close> where it is present
  and the default otherwise.
\<close>

record PartialFocusConfig =
  p_maxScreens :: "real option"
  p_switchThreshold :: "real option"
  p_stayThreshold :: "real option"
  p_cooldownMs :: "real option"
  p_idleMs :: "real option"
  p_idleMotionPxPerS :: "real option"
  p_clickDwellMs :: "real option"
  p_typingDwellMs :: "real option"
  p_scrollDwellMs :: "real option"
  p_hoverDwellMs :: "real option"
  p_movementDwellMs :: "real option"
  p_movementSpeedHighPxPerS :: "real option"
  p_hoverRadiusPx :: "real option"
  p_resumeGraceMs :: "real option"

definition emptyPartial :: PartialFocusConfig where
  "emptyPartial =
     \<lparr> p_maxScreens = None, p_switchThreshold = None, p_stayThreshold = None,
       p_cooldownMs = None, p_idleMs = None, p_idleMotionPxPerS = None,
       p_clickDwellMs = None, p_typingDwellMs = None, p_scrollDwellMs = None,
       p_hoverDwellMs = None, p_movementDwellMs = None,
       p_movementSpeedHighPxPerS = None, p_hoverRadiusPx = None,
       p_resumeGraceMs = None \<rparr>"

definition orDefault :: "real option \<Rightarrow> real \<Rightarrow> real" where
  "orDefault v d = (case v of Some a \<Rightarrow> a | None \<Rightarrow> d)"

definition spreadConfig :: "FocusConfig \<Rightarrow> PartialFocusConfig \<Rightarrow> FocusConfig" where
  "spreadConfig d c =
     \<lparr> maxScreens = orDefault (p_maxScreens c) (maxScreens d),
       switchThreshold = orDefault (p_switchThreshold c) (switchThreshold d),
       stayThreshold = orDefault (p_stayThreshold c) (stayThreshold d),
       cooldownMs = orDefault (p_cooldownMs c) (cooldownMs d),
       idleMs = orDefault (p_idleMs c) (idleMs d),
       idleMotionPxPerS = orDefault (p_idleMotionPxPerS c) (idleMotionPxPerS d),
       clickDwellMs = orDefault (p_clickDwellMs c) (clickDwellMs d),
       typingDwellMs = orDefault (p_typingDwellMs c) (typingDwellMs d),
       scrollDwellMs = orDefault (p_scrollDwellMs c) (scrollDwellMs d),
       hoverDwellMs = orDefault (p_hoverDwellMs c) (hoverDwellMs d),
       movementDwellMs = orDefault (p_movementDwellMs c) (movementDwellMs d),
       movementSpeedHighPxPerS =
         orDefault (p_movementSpeedHighPxPerS c) (movementSpeedHighPxPerS d),
       hoverRadiusPx = orDefault (p_hoverRadiusPx c) (hoverRadiusPx d),
       resumeGraceMs = orDefault (p_resumeGraceMs c) (resumeGraceMs d) \<rparr>"

record FocusAlgorithmState =
  activeScreenId :: "ScreenId option"
  frozen :: bool
  autoEnabled :: bool
  manualOverride :: "ScreenId option"
  lastSwitchTs :: real
  candidateScreenId :: "ScreenId option"
  candidateSinceTs :: real
  lastActivityTs :: real
  sequence :: nat

datatype PresenterControlAction =
  ToggleAutoFocus | ToggleFreeze | ManualSelect | ClearManual

record PresenterControl =
  pc_action :: PresenterControlAction
  pc_screenId :: "ScreenId option"
  pc_timestampMs :: real

section \<open>The engine (src/intent/focus-algorithm.ts)\<close>

record FocusMetrics =
  focusChanges :: nat
  cooldownBlocks :: nat
  dwellResets :: nat
  idleBlocks :: nat
  signalCounts :: "SignalType \<rightharpoonup> nat"

text \<open>
  A JavaScript \<open>Map\<close> iterates in insertion order, and setting a key that is present
  keeps its position: the map is an association list with distinct keys.
\<close>

type_synonym DisplayMap = "(ScreenId \<times> DisplayBounds) list"

fun map_set :: "('k \<times> 'v) list \<Rightarrow> 'k \<Rightarrow> 'v \<Rightarrow> ('k \<times> 'v) list" where
  "map_set [] k v = [(k, v)]"
| "map_set ((k', v') # m) k v =
     (if k' = k then (k', v) # m else (k', v') # map_set m k v)"

fun new_Map :: "('k \<times> 'v) list \<Rightarrow> ('k \<times> 'v) list \<Rightarrow> ('k \<times> 'v) list" where
  "new_Map m [] = m"
| "new_Map m ((k, v) # es) = new_Map (map_set m k v) es"

definition displayMap :: "DisplayBounds list \<Rightarrow> DisplayMap" where
  "displayMap ds = new_Map [] (map (\<lambda>d. (db_screenId d, d)) ds)"

definition map_has :: "('k \<times> 'v) list \<Rightarrow> 'k \<Rightarrow> bool" where
  "map_has m k = (map_of m k \<noteq> None)"

text \<open>
  The two callback slots \<open>onFocusChange\<close> and \<open>onFocusState\<close> are \<open>null\<close> until
  \<open>setOnFocusChange\<close> and \<open>setOnFocusState\<close> store a callback: the engine records
  whether a callback is stored (\<open>False\<close> is \<open>null\<close>).
\<close>

record FocusAlgorithm =
  state :: FocusAlgorithmState
  config :: FocusConfig
  displays :: DisplayMap
  sessionId :: string
  metrics :: FocusMetrics
  onFocusChange :: bool
  onFocusState :: bool

text \<open>
  The invocations of the stored callbacks are the engine's outputs: a call returns the
  engine after the call and the list of callback invocations it made, in order.
  \<open>this.onFocusChange?.(event)\<close> invokes nothing while the slot is \<open>null\<close>.
\<close>

datatype emission = FocusChange FocusChangeEvent | FocusState FocusStateSnapshot

text \<open>The constructor. It has no \<open>throw\<close>: it returns an engine for every argument.\<close>

definition FocusAlgorithm_new ::
  "string \<Rightarrow> DisplayBounds list \<Rightarrow> PartialFocusConfig \<Rightarrow> FocusAlgorithm" where
  "FocusAlgorithm_new sid ds cfg =
     \<lparr> state =
         \<lparr> activeScreenId = (case ds of [] \<Rightarrow> None | d # _ \<Rightarrow> Some (db_screenId d)),
           frozen = False,
           autoEnabled = True,
           manualOverride = None,
           lastSwitchTs = 0,
           candidateScreenId = None,
           candidateSinceTs = 0,
           lastActivityTs = 0,
           sequence = 0 \<rparr>,
       config = spreadConfig DEFAULT_FOCUS_CONFIG cfg,
       displays = displayMap ds,
       sessionId = sid,
       metrics =
         \<lparr> focusChanges = 0, cooldownBlocks = 0, dwellResets = 0, idleBlocks = 0,
           signalCounts = Map.empty \<rparr>,
       onFocusChange = False,
       onFocusState = False \<rparr>"

definition setOnFocusChange :: "FocusAlgorithm \<Rightarrow> FocusAlgorithm" where
  "setOnFocusChange self = self\<lparr> onFocusChange := True \<rparr>"

definition setOnFocusState :: "FocusAlgorithm \<Rightarrow> FocusAlgorithm" where
  "setOnFocusState self = self\<lparr> onFocusState := True \<rparr>"

text \<open>
  \<open>getState\<close> reads \<open>Date.now()\<close>: the wall clock at the time of the call is the
  parameter \<open>clock\<close>. \<open>a || 'screen_1'\<close> replaces \<open>null\<close> and the empty string.
\<close>

definition getState :: "real \<Rightarrow> FocusAlgorithm \<Rightarrow> FocusStateSnapshot" where
  "getState clock self =
     \<lparr> snap_activeScreenId =
         (case activeScreenId (state self) of
            None \<Rightarrow> ''screen_1''
          | Some a \<Rightarrow> if a = [] then ''screen_1'' else a),
       snap_mode =
         (if (case manualOverride (state self) of None \<Rightarrow> False | Some m \<Rightarrow> m \<noteq> [])
          then ModeManual
          else if frozen (state self) then ModeFrozen else ModeAuto),
       snap_frozen = frozen (state self),
       snap_sequence = sequence (state self),
       snap_timestampMs = clock \<rparr>"

definition updateDisplays :: "FocusAlgorithm \<Rightarrow> DisplayBounds list \<Rightarrow> FocusAlgorithm" where
  "updateDisplays self ds = self\<lparr>displays := displayMap ds\<rparr>"

subsection \<open>Signal attribution\<close>

text \<open>
  The body of the \<open>for ... of this.displays\<close> loop tests whether the rectangle of
  \<open>bounds\<close> contains the point and otherwise computes \<open>proximity\<close>; the two
  expressions are named here.
\<close>

definition containsPoint :: "DisplayBounds \<Rightarrow> real \<Rightarrow> real \<Rightarrow> bool" where
  "containsPoint bounds x y =
     (x \<ge> db_x bounds \<and> x < db_x bounds + db_width bounds \<and>
      y \<ge> db_y bounds \<and> y < db_y bounds + db_height bounds)"

definition distanceTo :: "DisplayBounds \<Rightarrow> real \<Rightarrow> real \<Rightarrow> real" where
  "distanceTo bounds x y =
     (let dx = max (max (db_x bounds - x) 0) (x - (db_x bounds + db_width bounds));
          dy = max (max (db_y bounds - y) 0) (y - (db_y bounds + db_height bounds))
      in sqrt (dx * dx + dy * dy))"

definition proximityTo :: "DisplayBounds \<Rightarrow> real \<Rightarrow> real \<Rightarrow> real" where
  "proximityTo bounds x y = 1 / (1 + distanceTo bounds x y)"

text \<open>
  The loop, with its two local variables as accumulators; \<open>return screenId\<close> inside
  the loop ends it.
\<close>

fun attributeLoop ::
  "real \<Rightarrow> real \<Rightarrow> DisplayMap \<Rightarrow> ScreenId option \<Rightarrow> real \<Rightarrow> ScreenId option" where
  "attributeLoop x y [] bestMatch bestOverlap = bestMatch"
| "attributeLoop x y ((screenId, bounds) # rest) bestMatch bestOverlap =
     (if containsPoint bounds x y then Some screenId
      else if proximityTo bounds x y > bestOverlap
      then attributeLoop x y rest (Some screenId) (proximityTo bounds x y)
      else attributeLoop x y rest bestMatch bestOverlap)"

text \<open>
  With a \<open>NaN\<close> coordinate every comparison of the loop body is false and
  \<open>proximity\<close> is \<open>NaN\<close>: no iteration returns or assigns, and the loop ends with
  \<open>bestMatch = null\<close> whatever the displays are.
\<close>

definition attributeToScreen :: "FocusAlgorithm \<Rightarrow> IntentSignal \<Rightarrow> ScreenId option" where
  "attributeToScreen self signal =
     (if sig_screenId signal \<noteq> [] \<and> map_has (displays self) (sig_screenId signal)
      then Some (sig_screenId signal)
      else if sig_type signal = WindowFocus \<and>
              (case sig_windowDisplayId signal of
                 None \<Rightarrow> False
               | Some w \<Rightarrow> w \<noteq> [] \<and> map_has (displays self) w)
      then sig_windowDisplayId signal
      else
        case (sig_x signal, sig_y signal) of
          (Num x, Num y) \<Rightarrow> attributeLoop x y (displays self) None (- 1)
        | _ \<Rightarrow> None)"

subsection \<open>Confidence, dwell, idle\<close>

definition computeConfidence ::
  "FocusAlgorithm \<Rightarrow> IntentSignal \<Rightarrow> ScreenId \<Rightarrow> real \<Rightarrow> real" where
  "computeConfidence self signal candidateScreen now =
     (let conf = BASE_CONFIDENCE (sig_type signal);
          conf = (if sig_windowDisplayId signal = Some candidateScreen
                  then conf + 5 / 100 else conf);
          conf = (if candidateScreenId (state self) = Some candidateScreen \<and>
                     now - candidateSinceTs (state self) < 1000
                  then conf + 5 / 100 else conf);
          conf = (if sig_type signal = PointerMove \<and>
                     (case sig_speedPxPerS signal of
                        None \<Rightarrow> False
                      | Some v \<Rightarrow> v > movementSpeedHighPxPerS (config self))
                  then conf - 10 / 100 else conf);
          conf = (if Some candidateScreen \<noteq> activeScreenId (state self) \<and>
                     now - lastSwitchTs (state self) \<le> cooldownMs (config self)
                  then conf - 15 / 100 else conf)
      in max 0 (min 1 conf))"

fun getDwellMs :: "FocusAlgorithm \<Rightarrow> SignalType \<Rightarrow> real" where
  "getDwellMs self Manual = 0"
| "getDwellMs self Click = clickDwellMs (config self)"
| "getDwellMs self DoubleClick = clickDwellMs (config self)"
| "getDwellMs self DragStart = clickDwellMs (config self)"
| "getDwellMs self Typing = typingDwellMs (config self)"
| "getDwellMs self WindowFocus = typingDwellMs (config self)"
| "getDwellMs self Scroll = scrollDwellMs (config self)"
| "getDwellMs self Gesture = scrollDwellMs (config self)"
| "getDwellMs self Hover = hoverDwellMs (config self)"
| "getDwellMs self PointerMove = movementDwellMs (config self)"
| "getDwellMs self DragEnd = movementDwellMs (config self)"

definition isIdle :: "FocusAlgorithm \<Rightarrow> real \<Rightarrow> bool" where
  "isIdle self now = (now - lastActivityTs (state self) > idleMs (config self))"

definition isActivitySignal :: "SignalType \<Rightarrow> bool" where
  "isActivitySignal t = (t \<noteq> PointerMove \<and> t \<noteq> Hover)"

subsection \<open>State transitions\<close>

text \<open>\<open>Math.round(v)\<close> is the integer nearest to \<open>v\<close>, a half rounded up.\<close>

definition Math_round :: "real \<Rightarrow> real" where
  "Math_round v = of_int \<lfloor>v + 1 / 2\<rfloor>"

definition setActive ::
  "FocusAlgorithm \<Rightarrow> ScreenId \<Rightarrow> SignalType \<Rightarrow> real \<Rightarrow> real \<Rightarrow> FocusAlgorithm \<times> emission list"
  where
  "setActive self screenId reason confidence now =
     (let seq = sequence (state self) + 1;
          dwellMs = now - candidateSinceTs (state self);
          self' = self
            \<lparr> state := (state self)
                 \<lparr> sequence := seq, activeScreenId := Some screenId, lastSwitchTs := now \<rparr>,
              metrics := (metrics self)\<lparr> focusChanges := focusChanges (metrics self) + 1 \<rparr> \<rparr>;
          event =
            \<lparr> ev_sessionId = sessionId self,
              ev_screenId = screenId,
              ev_reason = reason,
              ev_confidence = Math_round (confidence * 100) / 100,
              ev_dwellMs = dwellMs,
              ev_sequence = seq,
              ev_timestampMs = now \<rparr>
      in (self', if onFocusChange self then [FocusChange event] else []))"

text \<open>
  \<open>emitFocusStateRefresh\<close> takes \<open>now\<close> and does not use it; the snapshot goes to
  the focus-state callback when one is stored.
\<close>

definition emitFocusStateRefresh :: "real \<Rightarrow> FocusAlgorithm \<Rightarrow> real \<Rightarrow> emission list" where
  "emitFocusStateRefresh clock self now =
     (if onFocusState self then [FocusState (getState clock self)] else [])"

subsection \<open>processSignal\<close>

text \<open>
  The body of \<open>processSignal\<close> in the order of the source, its blocks named after the
  comments that head them: tracking (metrics and activity timestamp), the cooldown
  penalty, the dwell reset when the candidate changes, and the dwell gate with the
  hysteresis that follows it.
\<close>

definition countSignal :: "FocusAlgorithm \<Rightarrow> SignalType \<Rightarrow> FocusAlgorithm" where
  "countSignal self t =
     self\<lparr> metrics := (metrics self)
       \<lparr> signalCounts := (signalCounts (metrics self))
           (t \<mapsto> (case signalCounts (metrics self) t of None \<Rightarrow> 0 | Some c \<Rightarrow> c) + 1) \<rparr> \<rparr>"

definition trackSignal :: "FocusAlgorithm \<Rightarrow> IntentSignal \<Rightarrow> FocusAlgorithm" where
  "trackSignal self0 signal =
     (let self1 = countSignal self0 (sig_type signal)
      in if isActivitySignal (sig_type signal)
         then self1\<lparr> state := (state self1)\<lparr> lastActivityTs := sig_timestampMs signal \<rparr> \<rparr>
         else self1)"

definition countIdleBlock :: "FocusAlgorithm \<Rightarrow> FocusAlgorithm" where
  "countIdleBlock self =
     self\<lparr> metrics := (metrics self)\<lparr> idleBlocks := idleBlocks (metrics self) + 1 \<rparr> \<rparr>"

definition inCooldown :: "FocusAlgorithm \<Rightarrow> IntentSignal \<Rightarrow> real \<Rightarrow> bool" where
  "inCooldown self signal now =
     (now - lastSwitchTs (state self) \<le> cooldownMs (config self) \<and> sig_type signal \<noteq> Manual)"

definition cooldownPenalty :: "FocusAlgorithm \<Rightarrow> IntentSignal \<Rightarrow> real \<Rightarrow> real \<Rightarrow> real" where
  "cooldownPenalty self signal now confidence =
     (if inCooldown self signal now
      then (let c = confidence - 15 / 100 in if c < 0 then 0 else c)
      else confidence)"

definition countCooldownBlock :: "FocusAlgorithm \<Rightarrow> IntentSignal \<Rightarrow> real \<Rightarrow> FocusAlgorithm" where
  "countCooldownBlock self signal now =
     (if inCooldown self signal now
      then self\<lparr> metrics := (metrics self)
             \<lparr> cooldownBlocks := cooldownBlocks (metrics self) + 1 \<rparr> \<rparr>
      else self)"

definition trackCandidate :: "FocusAlgorithm \<Rightarrow> ScreenId \<Rightarrow> real \<Rightarrow> FocusAlgorithm" where
  "trackCandidate self candidateScreen now =
     (if Some candidateScreen \<noteq> candidateScreenId (state self)
      then self
        \<lparr> state := (state self)
             \<lparr> candidateScreenId := Some candidateScreen, candidateSinceTs := now \<rparr>,
          metrics := (metrics self)\<lparr> dwellResets := dwellResets (metrics self) + 1 \<rparr> \<rparr>
      else self)"

definition dwellAndHysteresis ::
  "real \<Rightarrow> FocusAlgorithm \<Rightarrow> IntentSignal \<Rightarrow> ScreenId \<Rightarrow> real \<Rightarrow> real \<Rightarrow>
   FocusAlgorithm \<times> emission list" where
  "dwellAndHysteresis clock self signal candidateScreen confidence now =
     (let dwellNeeded = getDwellMs self (sig_type signal);
          dwellElapsed = now - candidateSinceTs (state self)
      in
      if dwellElapsed < dwellNeeded then (self, [])
      else if Some candidateScreen \<noteq> activeScreenId (state self)
      then (if confidence \<ge> switchThreshold (config self)
            then setActive self candidateScreen (sig_type signal) confidence now
            else (self, []))
      else (if confidence \<ge> stayThreshold (config self)
            then (self, emitFocusStateRefresh clock self now)
            else (self, [])))"

definition processSignal ::
  "real \<Rightarrow> FocusAlgorithm \<Rightarrow> IntentSignal \<Rightarrow> FocusAlgorithm \<times> emission list" where
  "processSignal clock self0 signal =
     (let now = sig_timestampMs signal;
          self = trackSignal self0 signal
      in
      if frozen (state self) then (self, [])
      else if \<not> autoEnabled (state self) then (self, [])
      else
        case manualOverride (state self) of
          Some m \<Rightarrow>
            if activeScreenId (state self) \<noteq> Some m
            then setActive self m Manual 1 now
            else (self, [])
        | None \<Rightarrow>
           (case attributeToScreen self signal of
              None \<Rightarrow> (self, [])
            | Some candidateScreen \<Rightarrow>
               let confidence0 = computeConfidence self signal candidateScreen now in
               if isIdle self now then (countIdleBlock self, [])
               else
                 let confidence = cooldownPenalty self signal now confidence0;
                     self2 = countCooldownBlock self signal now;
                     self3 = trackCandidate self2 candidateScreen now
                 in dwellAndHysteresis clock self3 signal candidateScreen confidence now))"

subsection \<open>handlePresenterControl\<close>

definition handlePresenterControl ::
  "real \<Rightarrow> FocusAlgorithm \<Rightarrow> PresenterControl \<Rightarrow> FocusAlgorithm \<times> emission list" where
  "handlePresenterControl clock self control =
     (let now = pc_timestampMs control in
      case pc_action control of
        ToggleAutoFocus \<Rightarrow>
          (let self' = self\<lparr> state := (state self)
                         \<lparr> autoEnabled := \<not> autoEnabled (state self) \<rparr> \<rparr>
           in (self', emitFocusStateRefresh clock self' now))
      | ToggleFreeze \<Rightarrow>
          (let self1 = self\<lparr> state := (state self)\<lparr> frozen := \<not> frozen (state self) \<rparr> \<rparr>;
               self' = (if \<not> frozen (state self1)
                        then self1\<lparr> state := (state self1)\<lparr> candidateSinceTs := now \<rparr> \<rparr>
                        else self1)
           in (self', emitFocusStateRefresh clock self' now))
      | ManualSelect \<Rightarrow>
          (case pc_screenId control of
             None \<Rightarrow> (self, [])
           | Some s \<Rightarrow>
               if s \<noteq> [] \<and> map_has (displays self) s
               then setActive (self\<lparr> state := (state self)\<lparr> manualOverride := Some s \<rparr> \<rparr>)
                      s Manual 1 now
               else (self, []))
      | ClearManual \<Rightarrow>
          (let self' = self\<lparr> state := (state self)\<lparr> manualOverride := None \<rparr> \<rparr>
           in (self', emitFocusStateRefresh clock self' now)))"

section \<open>Sessions: sequences of calls on one engine\<close>

datatype call =
  ProcessSignal IntentSignal
| HandlePresenterControl PresenterControl
| UpdateDisplays "DisplayBounds list"
| SetOnFocusChange
| SetOnFocusState

text \<open>One call, made when the wall clock shows \<open>clock\<close>.\<close>

fun exec :: "real \<Rightarrow> FocusAlgorithm \<Rightarrow> call \<Rightarrow> FocusAlgorithm \<times> emission list" where
  "exec clock self (ProcessSignal signal) = processSignal clock self signal"
| "exec clock self (HandlePresenterControl control) = handlePresenterControl clock self control"
| "exec clock self (UpdateDisplays ds) = (updateDisplays self ds, [])"
| "exec clock self SetOnFocusChange = (setOnFocusChange self, [])"
| "exec clock self SetOnFocusState = (setOnFocusState self, [])"

fun run :: "FocusAlgorithm \<Rightarrow> (real \<times> call) list \<Rightarrow> FocusAlgorithm \<times> emission list" where
  "run self [] = (self, [])"
| "run self ((clock, c) # cs) =
     (case exec clock self c of
        (self', out) \<Rightarrow> (case run self' cs of (self'', outs) \<Rightarrow> (self'', out @ outs)))"

fun focusChangeEvents :: "emission list \<Rightarrow> FocusChangeEvent list" where
  "focusChangeEvents [] = []"
| "focusChangeEvents (FocusChange e # out) = e # focusChangeEvents out"
| "focusChangeEvents (FocusState s # out) = focusChangeEvents out"

fun focusStateSnapshots :: "emission list \<Rightarrow> FocusStateSnapshot list" where
  "focusStateSnapshots [] = []"
| "focusStateSnapshots (FocusChange e # out) = focusStateSnapshots out"
| "focusStateSnapshots (FocusState s # out) = s # focusStateSnapshots out"

text \<open>
  The timestamps the calls carry; \<open>updateDisplays\<close> and the two registrations carry
  none.
\<close>

fun callTimestamps :: "(real \<times> call) list \<Rightarrow> real list" where
  "callTimestamps [] = []"
| "callTimestamps ((clock, ProcessSignal signal) # cs) = sig_timestampMs signal # callTimestamps cs"
| "callTimestamps ((clock, HandlePresenterControl control) # cs) =
     pc_timestampMs control # callTimestamps cs"
| "callTimestamps ((clock, UpdateDisplays ds) # cs) = callTimestamps cs"
| "callTimestamps ((clock, SetOnFocusChange) # cs) = callTimestamps cs"
| "callTimestamps ((clock, SetOnFocusState) # cs) = callTimestamps cs"

subsection \<open>The displays and signals of the scenarios\<close>

definition display :: "ScreenId \<Rightarrow> real \<Rightarrow> real \<Rightarrow> real \<Rightarrow> real \<Rightarrow> DisplayBounds" where
  "display sid x y w h =
     \<lparr> db_screenId = sid, db_x = x, db_y = y, db_width = w, db_height = h, db_dpiScale = 1 \<rparr>"

definition D1 :: DisplayBounds where "D1 = display ''D1'' 0 0 1920 1080"
definition D2 :: DisplayBounds where "D2 = display ''D2'' 1920 0 1920 1080"
definition D3 :: DisplayBounds where "D3 = display ''D3'' 4480 0 1920 1080"

text \<open>
  \<open>makeSignal\<close> of test/focus-algorithm.test.ts: a signal of the given type, tagged
  with the screen, at the point (960, 540), with no speed and no window display.
\<close>

definition makeSignal :: "SignalType \<Rightarrow> ScreenId \<Rightarrow> real \<Rightarrow> IntentSignal" where
  "makeSignal t sid ts =
     \<lparr> sig_type = t, sig_screenId = sid, sig_x = Num 960, sig_y = Num 540,
       sig_timestampMs = ts,
       sig_speedPxPerS = None, sig_windowDisplayId = None \<rparr>"

text \<open>
  The engine of the scenarios, as the tests set it up: constructed, then given its two
  callbacks.
\<close>

definition listening :: "FocusAlgorithm \<Rightarrow> FocusAlgorithm" where
  "listening self = setOnFocusState (setOnFocusChange self)"

definition engine3 :: FocusAlgorithm where
  "engine3 = listening (FocusAlgorithm_new ''session'' [D1, D2, D3] emptyPartial)"

definition engine0 :: FocusAlgorithm where
  "engine0 = FocusAlgorithm_new ''session'' [] emptyPartial"



text \<open>The engine after one click on the active screen D1.\<close>

definition afterFirstStay :: FocusAlgorithm where
  "afterFirstStay = fst (processSignal 0 engine3 (makeSignal Click ''D1'' 1000))"

text \<open>A configuration with \<open>switchThreshold < stayThreshold\<close> and a negative cooldown.\<close>

definition invalidConfig :: PartialFocusConfig where
  "invalidConfig = emptyPartial\<lparr> p_switchThreshold := Some (30 / 100), p_cooldownMs := Some (- 1) \<rparr>"

section \<open>Conflict resolution (resolveConflict)\<close>

text \<open>
  \<open>Array.prototype.sort(compareFn)\<close> is a stable sort: an element for which
  \<open>compareFn\<close> gives a negative number comes first, and elements that compare equal
  keep their order. Insertion from the right, placing an element before the first one it
  does not follow, is such a sort.
\<close>

fun insertSorted :: "('a \<Rightarrow> 'a \<Rightarrow> real) \<Rightarrow> 'a \<Rightarrow> 'a list \<Rightarrow> 'a list" where
  "insertSorted cmp a [] = [a]"
| "insertSorted cmp a (b # bs) =
     (if cmp a b \<le> 0 then a # b # bs else b # insertSorted cmp a bs)"

fun Array_sort :: "('a \<Rightarrow> 'a \<Rightarrow> real) \<Rightarrow> 'a list \<Rightarrow> 'a list" where
  "Array_sort cmp [] = []"
| "Array_sort cmp (a # as) = insertSorted cmp a (Array_sort cmp as)"

definition compareSignals :: "IntentSignal \<Rightarrow> IntentSignal \<Rightarrow> real" where
  "compareSignals a b =
     (let priA = SIGNAL_PRIORITY (sig_type a);
          priB = SIGNAL_PRIORITY (sig_type b)
      in if priA \<noteq> priB then priA - priB
         else
           let confA = BASE_CONFIDENCE (sig_type a);
               confB = BASE_CONFIDENCE (sig_type b)
           in if confA \<noteq> confB then confB - confA
              else sig_timestampMs b - sig_timestampMs a)"

fun resolveConflict :: "IntentSignal list \<Rightarrow> IntentSignal option" where
  "resolveConflict [] = None"
| "resolveConflict [s] = Some s"
| "resolveConflict signals =
     (case Array_sort compareSignals signals of [] \<Rightarrow> None | w # _ \<Rightarrow> Some w)"

text \<open>
  The order of the conflict resolver, read from the two tables: \<open>winsOver a b\<close> when
  \<open>a\<close> has the lower priority number, or the same one and the higher base confidence,
  or the same two and a timestamp that is not earlier.
\<close>

definition winsOver :: "IntentSignal \<Rightarrow> IntentSignal \<Rightarrow> bool" where
  "winsOver a b =
     (SIGNAL_PRIORITY (sig_type a) < SIGNAL_PRIORITY (sig_type b) \<or>
      SIGNAL_PRIORITY (sig_type a) = SIGNAL_PRIORITY (sig_type b) \<and>
        (BASE_CONFIDENCE (sig_type a) > BASE_CONFIDENCE (sig_type b) \<or>
         BASE_CONFIDENCE (sig_type a) = BASE_CONFIDENCE (sig_type b) \<and>
           sig_timestampMs a \<ge> sig_timestampMs b))"

definition clickAt1000 :: IntentSignal where "clickAt1000 = makeSignal Click ''D1'' 1000"
definition doubleClickAt1100 :: IntentSignal where
  "doubleClickAt1100 = makeSignal DoubleClick ''D1'' 1100"

section \<open>Predicates on engines and sessions\<close>

text \<open>A call that replaces the display map.\<close>

definition isUpdateDisplays :: "call \<Rightarrow> bool" where
  "isUpdateDisplays c = (case c of UpdateDisplays ds \<Rightarrow> True | _ \<Rightarrow> False)"

text \<open>
  What one call does to the sequence number: it emits no focus change and leaves the
  number, or it emits one focus change that carries the incremented number and the
  timestamp \<open>ts\<close>, or it increments the number and emits nothing because no
  focus-change callback is stored. It leaves the focus-change slot as it is.
\<close>

definition emitsAt :: "FocusAlgorithm \<Rightarrow> FocusAlgorithm \<times> emission list \<Rightarrow> real \<Rightarrow> bool" where
  "emitsAt self r ts =
     (onFocusChange (fst r) = onFocusChange self \<and>
      (case focusChangeEvents (snd r) of
         [] \<Rightarrow> sequence (state (fst r)) = sequence (state self) \<or>
              (sequence (state (fst r)) = Suc (sequence (state self)) \<and>
               \<not> onFocusChange self)
       | [e] \<Rightarrow> ev_sequence e = Suc (sequence (state self)) \<and>
                sequence (state (fst r)) = Suc (sequence (state self)) \<and>
                ev_timestampMs e = ts
       | _ \<Rightarrow> False))"

text \<open>A manual override, when set, is the active screen.\<close>

definition overrideIsActive :: "FocusAlgorithm \<Rightarrow> bool" where
  "overrideIsActive self =
     (manualOverride (state self) = None \<or>
      activeScreenId (state self) = manualOverride (state self))"

text \<open>
  \<open>tracked self0 self\<close>: the engine \<open>self\<close> differs from \<open>self0\<close> at most in the
  metrics and in \<open>lastActivityTs\<close>, \<open>candidateScreenId\<close> and \<open>candidateSinceTs\<close>.
\<close>

definition tracked :: "FocusAlgorithm \<Rightarrow> FocusAlgorithm \<Rightarrow> bool" where
  "tracked self0 self =
     (displays self = displays self0 \<and> config self = config self0 \<and>
      sessionId self = sessionId self0 \<and>
      activeScreenId (state self) = activeScreenId (state self0) \<and>
      manualOverride (state self) = manualOverride (state self0) \<and>
      sequence (state self) = sequence (state self0) \<and>
      frozen (state self) = frozen (state self0) \<and>
      autoEnabled (state self) = autoEnabled (state self0) \<and>
      lastSwitchTs (state self) = lastSwitchTs (state self0) \<and>
      onFocusChange self = onFocusChange self0 \<and>
      onFocusState self = onFocusState self0)"

text \<open>An engine with no displays, no active screen and no manual override.\<close>

definition noDisplay :: "FocusAlgorithm \<Rightarrow> bool" where
  "noDisplay self =
     (displays self = [] \<and> activeScreenId (state self) = None \<and>
      manualOverride (state self) = None)"

text \<open>Sessions and pointer signals used as concrete inputs.\<close>

definition manualSelect :: "ScreenId \<Rightarrow> real \<Rightarrow> call" where
  "manualSelect sid ts =
     HandlePresenterControl
       \<lparr> pc_action = ManualSelect, pc_screenId = Some sid, pc_timestampMs = ts \<rparr>"

definition threeCalls :: "(real \<times> call) list" where
  "threeCalls =
     [(0, ProcessSignal (makeSignal Click ''D2'' 1000)),
      (0, ProcessSignal (makeSignal Click ''D2'' 1400)),
      (0, manualSelect ''D1'' 1500)]"

text \<open>A session whose focus-change callback is stored after the first focus change.\<close>

definition lateListener :: "(real \<times> call) list" where
  "lateListener =
     [(0, manualSelect ''D2'' 1000), (0, SetOnFocusChange), (0, manualSelect ''D1'' 1500)]"

definition twoCalls :: "(real \<times> call) list" where
  "twoCalls =
     [(0, ProcessSignal (makeSignal Click ''D2'' 1000)),
      (0, HandlePresenterControl
            \<lparr> pc_action = ToggleFreeze, pc_screenId = None, pc_timestampMs = 1500 \<rparr>)]"

text \<open>
  Sessions on an engine constructed without displays that replace the display map: by
  one display named \<open>screen_1\<close>, and by D1 and D2 followed by two clicks on D2.
\<close>

definition plugScreen1 :: "(real \<times> call) list" where
  "plugScreen1 = [(0, UpdateDisplays [display ''screen_1'' 0 0 1920 1080])]"

definition plugAndClick :: "(real \<times> call) list" where
  "plugAndClick =
     [(0, UpdateDisplays [D1, D2]),
      (0, ProcessSignal (makeSignal Click ''D2'' 1000)),
      (0, ProcessSignal (makeSignal Click ''D2'' 1400))]"


definition gapSignal :: IntentSignal where
  "gapSignal =
     \<lparr> sig_type = Click, sig_screenId = [], sig_x = Num 4000, sig_y = Num 540,
       sig_timestampMs = 1000,
       sig_speedPxPerS = None, sig_windowDisplayId = None \<rparr>"



section \<open>Evaluation of the scenarios\<close>

lemmas fixture_defs =
  engine3_def listening_def setOnFocusChange_def setOnFocusState_def FocusAlgorithm_new_def D1_def D2_def D3_def display_def displayMap_def
  spreadConfig_def DEFAULT_FOCUS_CONFIG_def emptyPartial_def orDefault_def makeSignal_def

lemmas engine_defs =
  processSignal_def trackSignal_def countSignal_def countIdleBlock_def countCooldownBlock_def
  trackCandidate_def dwellAndHysteresis_def isActivitySignal_def attributeToScreen_def map_has_def
  computeConfidence_def isIdle_def cooldownPenalty_def inCooldown_def setActive_def
  emitFocusStateRefresh_def getState_def Math_round_def handlePresenterControl_def
  updateDisplays_def Let_def

text \<open>
  C1 (as the code has it). With displays D1, D2, D3 and the default configuration, the
  two signals Click on D2 at 1000 and Click on D2 at 1400 emit exactly one focus change:
  screen D2, reason Click, dwell 400 ms, sequence 1, and confidence 1.00. The second click
  finds D2 already the candidate for 400 ms < 1000 ms, so the reinforcement of 0.05 is added
  to the base confidence 0.95.
\<close>

theorem C1_click_dwell_event:
  "focusChangeEvents (snd (run engine3
      [(c1, ProcessSignal (makeSignal Click ''D2'' 1000)),
       (c2, ProcessSignal (makeSignal Click ''D2'' 1400))])) =
   [\<lparr> ev_sessionId = ''session'', ev_screenId = ''D2'', ev_reason = Click,
      ev_confidence = 1, ev_dwellMs = 400, ev_sequence = 1, ev_timestampMs = 1400 \<rparr>]"
  by (simp add: fixture_defs engine_defs)

text \<open>
  C1 as stated fails: the run emits one event, and its confidence is not 0.95.
\<close>

theorem C1_confidence_counterexample:
  "length (focusChangeEvents (snd (run engine3
      [(0, ProcessSignal (makeSignal Click ''D2'' 1000)),
       (0, ProcessSignal (makeSignal Click ''D2'' 1400))]))) = 1 \<and>
   ev_confidence (hd (focusChangeEvents (snd (run engine3
      [(0, ProcessSignal (makeSignal Click ''D2'' 1000)),
       (0, ProcessSignal (makeSignal Click ''D2'' 1400))])))) \<noteq> 95 / 100"
  by (simp add: fixture_defs engine_defs)


text \<open>
  C2 at the input where the code departs from it: D1 is active, and a manual selection of
  D1 emits a focus change (sequence 1) although the active screen stays D1.
\<close>

theorem C2_manual_select_of_active_screen:
  "activeScreenId (state engine3) = Some ''D1'' \<and>
   handlePresenterControl 0 engine3
     \<lparr> pc_action = ManualSelect, pc_screenId = Some ''D1'', pc_timestampMs = 1000 \<rparr> =
   (engine3
      \<lparr> state := (state engine3)
           \<lparr> manualOverride := Some ''D1'', sequence := 1, lastSwitchTs := 1000 \<rparr>,
        metrics := (metrics engine3)\<lparr> focusChanges := 1 \<rparr> \<rparr>,
    [FocusChange
       \<lparr> ev_sessionId = ''session'', ev_screenId = ''D1'', ev_reason = Manual,
         ev_confidence = 1, ev_dwellMs = 1000, ev_sequence = 1, ev_timestampMs = 1000 \<rparr>])"
  by (simp add: fixture_defs engine_defs)

text \<open>
  C5 at the input where the code departs from it: the second click on the active screen
  passes the dwell gate and the stay threshold, and the snapshot handed to the
  focus-state callback carries the wall clock, not the signal's timestamp 1400.
\<close>

theorem C5_stay_refresh_reads_clock:
  "snd (processSignal 5000 afterFirstStay (makeSignal Click ''D1'' 1400)) =
     [FocusState \<lparr> snap_activeScreenId = ''D1'', snap_mode = ModeAuto, snap_frozen = False,
        snap_sequence = 0, snap_timestampMs = 5000 \<rparr>] \<and>
   snd (processSignal 6000 afterFirstStay (makeSignal Click ''D1'' 1400)) =
     [FocusState \<lparr> snap_activeScreenId = ''D1'', snap_mode = ModeAuto, snap_frozen = False,
        snap_sequence = 0, snap_timestampMs = 6000 \<rparr>] \<and>
   snd (processSignal 5000 afterFirstStay (makeSignal Click ''D1'' 1400)) \<noteq>
   snd (processSignal 6000 afterFirstStay (makeSignal Click ''D1'' 1400))"
  by (simp add: afterFirstStay_def fixture_defs engine_defs)

section \<open>The constructor\<close>

text \<open>
  C3 as stated fails: a configuration with \<open>switchThreshold = 0.3 < stayThreshold = 0.5\<close>
  and \<open>cooldownMs = -1\<close> is accepted, and the engine built from it switches focus.
\<close>

theorem C3_invalid_config_counterexample:
  "switchThreshold (config (FocusAlgorithm_new ''session'' [D1, D2, D3] invalidConfig))
     < stayThreshold (config (FocusAlgorithm_new ''session'' [D1, D2, D3] invalidConfig)) \<and>
   cooldownMs (config (FocusAlgorithm_new ''session'' [D1, D2, D3] invalidConfig)) < 0 \<and>
   focusChangeEvents (snd (run (FocusAlgorithm_new ''session'' [D1, D2, D3] invalidConfig)
      [(0, SetOnFocusChange),
       (0, ProcessSignal (makeSignal Click ''D2'' 1000)),
       (0, ProcessSignal (makeSignal Click ''D2'' 1400))])) =
   [\<lparr> ev_sessionId = ''session'', ev_screenId = ''D2'', ev_reason = Click,
      ev_confidence = 1, ev_dwellMs = 400, ev_sequence = 1, ev_timestampMs = 1400 \<rparr>]"
  by (simp add: invalidConfig_def fixture_defs engine_defs)

text \<open>
  C3 (as the code has it). The constructor checks nothing: for every configuration it
  returns an engine whose thresholds and cooldown are the given values (the defaults where
  none is given), and whose initial state and display map do not depend on the
  configuration.
\<close>

theorem C3_constructor_accepts_every_config:
  "switchThreshold (config (FocusAlgorithm_new sid ds cfg)) =
     (case p_switchThreshold cfg of Some v \<Rightarrow> v | None \<Rightarrow> 80 / 100) \<and>
   stayThreshold (config (FocusAlgorithm_new sid ds cfg)) =
     (case p_stayThreshold cfg of Some v \<Rightarrow> v | None \<Rightarrow> 50 / 100) \<and>
   cooldownMs (config (FocusAlgorithm_new sid ds cfg)) =
     (case p_cooldownMs cfg of Some v \<Rightarrow> v | None \<Rightarrow> 500) \<and>
   state (FocusAlgorithm_new sid ds cfg) = state (FocusAlgorithm_new sid ds emptyPartial) \<and>
   displays (FocusAlgorithm_new sid ds cfg) = displayMap ds \<and>
   sequence (state (FocusAlgorithm_new sid ds cfg)) = 0 \<and>
   \<not> frozen (state (FocusAlgorithm_new sid ds cfg)) \<and>
   autoEnabled (state (FocusAlgorithm_new sid ds cfg))"
  by (simp add: FocusAlgorithm_new_def spreadConfig_def DEFAULT_FOCUS_CONFIG_def orDefault_def
      split: option.split)

section \<open>The conflict resolver\<close>

lemma compareSignals_winsOver: "(compareSignals a b \<le> 0) = winsOver a b"
  by (auto simp: compareSignals_def winsOver_def Let_def)

lemma winsOver_total: "winsOver a b \<or> winsOver b a"
  unfolding winsOver_def by linarith

lemma winsOver_trans: "winsOver a b \<Longrightarrow> winsOver b c \<Longrightarrow> winsOver a c"
  unfolding winsOver_def by linarith

lemma set_insertSorted: "set (insertSorted cmp a bs) = insert a (set bs)"
  by (induction bs) auto

lemma set_Array_sort: "set (Array_sort cmp xs) = set xs"
  by (induction xs) (auto simp: set_insertSorted)

lemma sorted_insertSorted:
  "sorted_wrt winsOver bs \<Longrightarrow> sorted_wrt winsOver (insertSorted compareSignals a bs)"
proof (induction bs)
  case Nil
  then show ?case by simp
next
  case (Cons b bs)
  show ?case
  proof (cases "winsOver a b")
    case True
    with Cons.prems have "\<forall>c\<in>set bs. winsOver a c"
      by (auto intro: winsOver_trans)
    with True Cons.prems show ?thesis
      by (simp add: compareSignals_winsOver)
  next
    case False
    then have "winsOver b a" using winsOver_total by blast
    with False Cons show ?thesis
      by (auto simp: compareSignals_winsOver set_insertSorted)
  qed
qed

lemma sorted_Array_sort: "sorted_wrt winsOver (Array_sort compareSignals xs)"
  by (induction xs) (auto intro: sorted_insertSorted)

lemma winsOver_refl: "winsOver a a"
  by (simp add: winsOver_def)

lemma Array_sort_head:
  assumes "Array_sort compareSignals xs = w # ws"
  shows "w \<in> set xs \<and> (\<forall>s\<in>set xs. winsOver w s)"
proof -
  have "set (w # ws) = set xs"
    using assms set_Array_sort [of compareSignals xs] by simp
  moreover have "sorted_wrt winsOver (w # ws)"
    using assms sorted_Array_sort [of xs] by simp
  then have "\<forall>s\<in>set (w # ws). winsOver w s"
    by (simp add: winsOver_refl)
  ultimately show ?thesis
    by (metis list.set_intros(1))
qed

lemma Array_sort_Nil: "(Array_sort cmp xs = []) = (xs = [])"
  using set_Array_sort [of cmp xs] by (cases xs) (auto simp del: Array_sort.simps)

text \<open>
  C4 (as the code has it). For every non-empty list, \<open>resolveConflict\<close> returns a
  signal of the list that wins over every signal of the list: lower priority number, then
  higher base confidence, then later timestamp. The priority numbers put Manual first,
  then Click, DragStart and DoubleClick together, then DragEnd, WindowFocus, Typing,
  Scroll, Gesture, Hover, PointerMove. Click and DoubleClick tie on priority and on base
  confidence, so of a Click and a later DoubleClick the DoubleClick is returned.
\<close>

theorem C4_resolveConflict_winner:
  "(signals \<noteq> [] \<longrightarrow>
      (\<exists>w. resolveConflict signals = Some w \<and> w \<in> set signals \<and>
           (\<forall>s\<in>set signals. winsOver w s))) \<and>
   (sig_type a = Click \<and> sig_type b = DoubleClick \<and> sig_timestampMs a < sig_timestampMs b \<longrightarrow>
      resolveConflict [a, b] = Some b \<and> resolveConflict [b, a] = Some b) \<and>
   SIGNAL_PRIORITY Manual < SIGNAL_PRIORITY Click \<and>
   SIGNAL_PRIORITY Click = SIGNAL_PRIORITY DragStart \<and>
   SIGNAL_PRIORITY DragStart = SIGNAL_PRIORITY DoubleClick \<and>
   SIGNAL_PRIORITY DoubleClick < SIGNAL_PRIORITY DragEnd \<and>
   SIGNAL_PRIORITY DragEnd < SIGNAL_PRIORITY WindowFocus \<and>
   SIGNAL_PRIORITY WindowFocus < SIGNAL_PRIORITY Typing \<and>
   SIGNAL_PRIORITY Typing < SIGNAL_PRIORITY Scroll \<and>
   SIGNAL_PRIORITY Scroll < SIGNAL_PRIORITY Gesture \<and>
   SIGNAL_PRIORITY Gesture < SIGNAL_PRIORITY Hover \<and>
   SIGNAL_PRIORITY Hover < SIGNAL_PRIORITY PointerMove"
proof -
  have winner: "\<exists>w. resolveConflict signals = Some w \<and> w \<in> set signals \<and>
      (\<forall>s\<in>set signals. winsOver w s)" if ne: "signals \<noteq> []"
  proof (cases signals)
    case Nil
    with ne show ?thesis by simp
  next
    case (Cons s rest)
    show ?thesis
    proof (cases rest)
      case Nil
      with Cons show ?thesis by (simp add: winsOver_refl)
    next
      case (Cons s' rest')
      obtain w ws where sorted: "Array_sort compareSignals signals = w # ws"
        using ne Array_sort_Nil [of compareSignals signals]
        by (cases "Array_sort compareSignals signals") auto
      then have "resolveConflict signals = Some w"
        using Cons \<open>signals = s # rest\<close> by simp
      with Array_sort_head [OF sorted] show ?thesis by blast
    qed
  qed
  have later: "resolveConflict [a, b] = Some b \<and> resolveConflict [b, a] = Some b"
    if "sig_type a = Click" "sig_type b = DoubleClick" "sig_timestampMs a < sig_timestampMs b"
    using that by (simp add: compareSignals_def)
  show ?thesis
    using winner later by simp
qed

text \<open>C4 at a Click at 1000 and a DoubleClick at 1100.\<close>

theorem C4_resolveConflict_winner_witness:
  "[clickAt1000, doubleClickAt1100] \<noteq> [] \<and>
   sig_type clickAt1000 = Click \<and> sig_type doubleClickAt1100 = DoubleClick \<and>
   sig_timestampMs clickAt1000 < sig_timestampMs doubleClickAt1100 \<and>
   resolveConflict [clickAt1000, doubleClickAt1100] = Some doubleClickAt1100 \<and>
   resolveConflict [doubleClickAt1100, clickAt1000] = Some doubleClickAt1100 \<and>
   (\<exists>w. resolveConflict [clickAt1000, doubleClickAt1100] = Some w \<and>
        winsOver w clickAt1000 \<and> winsOver w doubleClickAt1100)"
  using C4_resolveConflict_winner [of "[clickAt1000, doubleClickAt1100]" clickAt1000 doubleClickAt1100]
  by (simp add: clickAt1000_def doubleClickAt1100_def makeSignal_def compareSignals_def
      winsOver_def)


text \<open>
  C4 as stated fails: given a Click and a later DoubleClick, the DoubleClick is returned,
  not the Click.
\<close>

theorem C4_click_then_doubleclick_counterexample:
  "resolveConflict [clickAt1000, doubleClickAt1100] = Some doubleClickAt1100 \<and>
   resolveConflict [clickAt1000, doubleClickAt1100] \<noteq> Some clickAt1000 \<and>
   sig_type clickAt1000 = Click \<and> sig_type doubleClickAt1100 = DoubleClick \<and>
   sig_timestampMs clickAt1000 < sig_timestampMs doubleClickAt1100"
  by (simp add: clickAt1000_def doubleClickAt1100_def makeSignal_def compareSignals_def)

section \<open>How a call ends\<close>

lemma focusChangeEvents_append:
  "focusChangeEvents (xs @ ys) = focusChangeEvents xs @ focusChangeEvents ys"
  by (induction xs rule: focusChangeEvents.induct) auto

lemma trackSignal_frame:
  "displays (trackSignal self signal) = displays self"
  "config (trackSignal self signal) = config self"
  "sessionId (trackSignal self signal) = sessionId self"
  "activeScreenId (state (trackSignal self signal)) = activeScreenId (state self)"
  "manualOverride (state (trackSignal self signal)) = manualOverride (state self)"
  "sequence (state (trackSignal self signal)) = sequence (state self)"
  "frozen (state (trackSignal self signal)) = frozen (state self)"
  "autoEnabled (state (trackSignal self signal)) = autoEnabled (state self)"
  "lastSwitchTs (state (trackSignal self signal)) = lastSwitchTs (state self)"
  "candidateScreenId (state (trackSignal self signal)) = candidateScreenId (state self)"
  "candidateSinceTs (state (trackSignal self signal)) = candidateSinceTs (state self)"
  "onFocusChange (trackSignal self signal) = onFocusChange self"
  "onFocusState (trackSignal self signal) = onFocusState self"
  by (simp_all add: trackSignal_def countSignal_def Let_def)

lemma countIdleBlock_frame:
  "displays (countIdleBlock self) = displays self"
  "config (countIdleBlock self) = config self"
  "sessionId (countIdleBlock self) = sessionId self"
  "state (countIdleBlock self) = state self"
  "onFocusChange (countIdleBlock self) = onFocusChange self"
  "onFocusState (countIdleBlock self) = onFocusState self"
  by (simp_all add: countIdleBlock_def)

lemma countCooldownBlock_frame:
  "displays (countCooldownBlock self signal now) = displays self"
  "config (countCooldownBlock self signal now) = config self"
  "sessionId (countCooldownBlock self signal now) = sessionId self"
  "state (countCooldownBlock self signal now) = state self"
  "onFocusChange (countCooldownBlock self signal now) = onFocusChange self"
  "onFocusState (countCooldownBlock self signal now) = onFocusState self"
  by (simp_all add: countCooldownBlock_def)

lemma trackCandidate_frame:
  "displays (trackCandidate self cand now) = displays self"
  "config (trackCandidate self cand now) = config self"
  "sessionId (trackCandidate self cand now) = sessionId self"
  "activeScreenId (state (trackCandidate self cand now)) = activeScreenId (state self)"
  "manualOverride (state (trackCandidate self cand now)) = manualOverride (state self)"
  "sequence (state (trackCandidate self cand now)) = sequence (state self)"
  "frozen (state (trackCandidate self cand now)) = frozen (state self)"
  "autoEnabled (state (trackCandidate self cand now)) = autoEnabled (state self)"
  "lastSwitchTs (state (trackCandidate self cand now)) = lastSwitchTs (state self)"
  "lastActivityTs (state (trackCandidate self cand now)) = lastActivityTs (state self)"
  "onFocusChange (trackCandidate self cand now) = onFocusChange self"
  "onFocusState (trackCandidate self cand now) = onFocusState self"
  by (simp_all add: trackCandidate_def)

lemma setActive_frame:
  "displays (fst (setActive self s r c now)) = displays self"
  "config (fst (setActive self s r c now)) = config self"
  "sessionId (fst (setActive self s r c now)) = sessionId self"
  "activeScreenId (state (fst (setActive self s r c now))) = Some s"
  "manualOverride (state (fst (setActive self s r c now))) = manualOverride (state self)"
  "sequence (state (fst (setActive self s r c now))) = Suc (sequence (state self))"
  "frozen (state (fst (setActive self s r c now))) = frozen (state self)"
  "autoEnabled (state (fst (setActive self s r c now))) = autoEnabled (state self)"
  "lastSwitchTs (state (fst (setActive self s r c now))) = now"
  "onFocusChange (fst (setActive self s r c now)) = onFocusChange self"
  "onFocusState (fst (setActive self s r c now)) = onFocusState self"
  by (simp_all add: setActive_def Let_def)

lemma setActive_events:
  "focusChangeEvents (snd (setActive self s r c now)) =
     (if onFocusChange self
      then [\<lparr> ev_sessionId = sessionId self, ev_screenId = s, ev_reason = r,
              ev_confidence = Math_round (c * 100) / 100,
              ev_dwellMs = now - candidateSinceTs (state self),
              ev_sequence = Suc (sequence (state self)), ev_timestampMs = now \<rparr>]
      else [])"
  by (simp add: setActive_def Let_def)

lemma attributeToScreen_displays:
  "displays a = displays b \<Longrightarrow> attributeToScreen a signal = attributeToScreen b signal"
  by (cases "sig_windowDisplayId signal"; cases "sig_x signal"; cases "sig_y signal")
     (simp_all add: attributeToScreen_def)

text \<open>The three ways in which the dwell gate and the hysteresis end.\<close>

lemma dwellAndHysteresis_cases:
  "dwellAndHysteresis clock self signal cand conf now = (self, []) \<or>
   dwellAndHysteresis clock self signal cand conf now =
     (self, emitFocusStateRefresh clock self now) \<or>
   Some cand \<noteq> activeScreenId (state self) \<and>
   dwellAndHysteresis clock self signal cand conf now =
     setActive self cand (sig_type signal) conf now"
  by (simp add: dwellAndHysteresis_def Let_def)

text \<open>
  The ways in which \<open>processSignal\<close> ends: quietly or with a state refresh, the engine
  changed at most in the fields that tracking and the candidate reset write; with the
  manual override made active; or with a switch to the candidate.
\<close>

lemma tracked_blocks:
  "tracked self0 (trackSignal self0 signal)"
  "tracked self0 self \<Longrightarrow> tracked self0 (countIdleBlock self)"
  "tracked self0 self \<Longrightarrow> tracked self0 (countCooldownBlock self signal now)"
  "tracked self0 self \<Longrightarrow> tracked self0 (trackCandidate self cand now)"
  by (simp_all add: tracked_def trackSignal_frame countIdleBlock_frame countCooldownBlock_frame
      trackCandidate_frame)

lemma processSignal_cases:
  "\<exists>self. tracked self0 self \<and>
     (processSignal clock self0 signal = (self, []) \<or>
      processSignal clock self0 signal = (self, emitFocusStateRefresh clock self (sig_timestampMs signal)) \<or>
      (\<exists>m. manualOverride (state self0) = Some m \<and> activeScreenId (state self0) \<noteq> Some m \<and>
           processSignal clock self0 signal = setActive self m Manual 1 (sig_timestampMs signal)) \<or>
      (\<exists>cand conf. manualOverride (state self0) = None \<and>
           Some cand \<noteq> activeScreenId (state self0) \<and>
           attributeToScreen self0 signal = Some cand \<and>
           processSignal clock self0 signal =
             setActive self cand (sig_type signal) conf (sig_timestampMs signal)))"
proof -
  let ?now = "sig_timestampMs signal"
  let ?self = "trackSignal self0 signal"
  have t: "tracked self0 ?self" by (rule tracked_blocks)
  have attr: "attributeToScreen ?self signal = attributeToScreen self0 signal"
    by (rule attributeToScreen_displays) (simp add: trackSignal_frame)
  show ?thesis
  proof (cases "frozen (state ?self) \<or> \<not> autoEnabled (state ?self)")
    case True
    then have "processSignal clock self0 signal = (?self, [])"
      by (auto simp: processSignal_def Let_def)
    with t show ?thesis by blast
  next
    case False
    note enabled = this
    show ?thesis
    proof (cases "manualOverride (state ?self)")
      case (Some m)
      show ?thesis
      proof (cases "activeScreenId (state ?self) = Some m")
        case True
        then have "processSignal clock self0 signal = (?self, [])"
          using enabled Some by (simp add: processSignal_def Let_def)
        with t show ?thesis by blast
      next
        case False
        then have "processSignal clock self0 signal = setActive ?self m Manual 1 ?now"
          using enabled Some by (simp add: processSignal_def Let_def)
        moreover have "manualOverride (state self0) = Some m"
          "activeScreenId (state self0) \<noteq> Some m"
          using Some False by (simp_all add: trackSignal_frame)
        ultimately show ?thesis using t by blast
      qed
    next
      case None
      note no_override = this
      show ?thesis
      proof (cases "attributeToScreen ?self signal")
        case None
        then have "processSignal clock self0 signal = (?self, [])"
          using enabled no_override by (simp add: processSignal_def Let_def)
        with t show ?thesis by blast
      next
        case (Some cand)
        show ?thesis
        proof (cases "isIdle ?self ?now")
          case True
          then have "processSignal clock self0 signal = (countIdleBlock ?self, [])"
            using enabled no_override Some by (simp add: processSignal_def Let_def)
          moreover have "tracked self0 (countIdleBlock ?self)"
            using t by (rule tracked_blocks)
          ultimately show ?thesis by blast
        next
          case False
          let ?conf = "cooldownPenalty ?self signal ?now (computeConfidence ?self signal cand ?now)"
          let ?self3 = "trackCandidate (countCooldownBlock ?self signal ?now) cand ?now"
          have ps: "processSignal clock self0 signal =
              dwellAndHysteresis clock ?self3 signal cand ?conf ?now"
            using enabled no_override Some False by (simp add: processSignal_def Let_def)
          have t3: "tracked self0 ?self3"
            using t by (intro tracked_blocks)
          have ov: "manualOverride (state self0) = None"
            using no_override by (simp add: trackSignal_frame)
          have at: "attributeToScreen self0 signal = Some cand"
            using Some attr by simp
          from dwellAndHysteresis_cases [of clock ?self3 signal cand ?conf ?now]
          show ?thesis
          proof (elim disjE conjE)
            assume "dwellAndHysteresis clock ?self3 signal cand ?conf ?now = (?self3, [])"
            with ps t3 show ?thesis by metis
          next
            assume "dwellAndHysteresis clock ?self3 signal cand ?conf ?now =
                (?self3, emitFocusStateRefresh clock ?self3 ?now)"
            with ps t3 show ?thesis by metis
          next
            assume a: "Some cand \<noteq> activeScreenId (state ?self3)"
              and d: "dwellAndHysteresis clock ?self3 signal cand ?conf ?now =
                setActive ?self3 cand (sig_type signal) ?conf ?now"
            have "Some cand \<noteq> activeScreenId (state self0)"
              using a t3 by (simp add: tracked_def)
            with ps d t3 ov at show ?thesis by metis
          qed
        qed
      qed
    qed
  qed
qed


lemma handlePresenterControl_cases:
  "(\<exists>self. displays self = displays self0 \<and>
       activeScreenId (state self) = activeScreenId (state self0) \<and>
       sequence (state self) = sequence (state self0) \<and>
       onFocusChange self = onFocusChange self0 \<and>
       (manualOverride (state self) = manualOverride (state self0) \<or>
        manualOverride (state self) = None) \<and>
       handlePresenterControl clock self0 control =
         (self, emitFocusStateRefresh clock self (pc_timestampMs control))) \<or>
   handlePresenterControl clock self0 control = (self0, []) \<or>
   (\<exists>s. s \<noteq> [] \<and> map_has (displays self0) s \<and> pc_screenId control = Some s \<and>
       pc_action control = ManualSelect \<and>
       handlePresenterControl clock self0 control =
         setActive (self0\<lparr> state := (state self0)\<lparr> manualOverride := Some s \<rparr> \<rparr>)
           s Manual 1 (pc_timestampMs control))"
  by (cases "pc_action control"; cases "pc_screenId control")
     (simp_all add: handlePresenterControl_def Let_def)

text \<open>
  A focus change emitted by \<open>processSignal\<close> changes the active screen: both calls of
  \<open>setActive\<close> in it are guarded by a comparison with \<open>activeScreenId\<close>.
\<close>

lemma processSignal_emits_only_on_change:
  assumes "focusChangeEvents (snd (processSignal clock self signal)) \<noteq> []"
  shows "activeScreenId (state (fst (processSignal clock self signal))) \<noteq>
    activeScreenId (state self)"
  using processSignal_cases [of self clock signal] assms
  by (auto simp: setActive_frame emitFocusStateRefresh_def tracked_def split: if_splits)

text \<open>
  The wall clock reaches nothing but the snapshot of a stay-refresh: the engine after
  \<open>processSignal\<close> and the focus changes it emits are the same at every clock.
\<close>

lemma dwellAndHysteresis_clock:
  "fst (dwellAndHysteresis c1 self signal cand conf now) =
     fst (dwellAndHysteresis c2 self signal cand conf now) \<and>
   focusChangeEvents (snd (dwellAndHysteresis c1 self signal cand conf now)) =
     focusChangeEvents (snd (dwellAndHysteresis c2 self signal cand conf now))"
  by (simp add: dwellAndHysteresis_def Let_def emitFocusStateRefresh_def)

lemma processSignal_clock:
  "fst (processSignal c1 self signal) = fst (processSignal c2 self signal) \<and>
   focusChangeEvents (snd (processSignal c1 self signal)) =
     focusChangeEvents (snd (processSignal c2 self signal))"
  using dwellAndHysteresis_clock [of c1 _ signal _ _ "sig_timestampMs signal" c2]
  by (simp add: processSignal_def Let_def split: option.split)

lemma emitsAt_setActive:
  "sequence (state self) = sequence (state self0) \<Longrightarrow>
   onFocusChange self = onFocusChange self0 \<Longrightarrow>
   emitsAt self0 (setActive self s r c ts) ts"
  by (simp add: emitsAt_def setActive_events setActive_frame)

lemma emitsAt_quiet:
  "sequence (state self) = sequence (state self0) \<Longrightarrow>
   onFocusChange self = onFocusChange self0 \<Longrightarrow> emitsAt self0 (self, []) ts"
  "sequence (state self) = sequence (state self0) \<Longrightarrow>
   onFocusChange self = onFocusChange self0 \<Longrightarrow>
   emitsAt self0 (self, emitFocusStateRefresh clock self' now) ts"
  by (simp_all add: emitsAt_def emitFocusStateRefresh_def)

lemma processSignal_emitsAt:
  "emitsAt self (processSignal clock self signal) (sig_timestampMs signal)"
  using processSignal_cases [of self clock signal]
  by (auto simp: tracked_def intro: emitsAt_setActive emitsAt_quiet)

lemma handlePresenterControl_emitsAt:
  "emitsAt self (handlePresenterControl clock self control) (pc_timestampMs control)"
  using handlePresenterControl_cases [of self clock control]
  by (auto intro!: emitsAt_setActive emitsAt_quiet)

section \<open>Suppressed signals\<close>

lemma overrideIsActive_new: "overrideIsActive (FocusAlgorithm_new sid ds cfg)"
  by (simp add: overrideIsActive_def FocusAlgorithm_new_def)

lemma overrideIsActive_tracked:
  "tracked self0 self \<Longrightarrow> overrideIsActive self = overrideIsActive self0"
  by (simp add: tracked_def overrideIsActive_def)

lemma processSignal_overrideIsActive:
  assumes "overrideIsActive self0"
  shows "overrideIsActive (fst (processSignal clock self0 signal))"
proof -
  from processSignal_cases [of self0 clock signal] obtain self where
    t: "tracked self0 self" and
    r: "processSignal clock self0 signal = (self, []) \<or>
      processSignal clock self0 signal =
        (self, emitFocusStateRefresh clock self (sig_timestampMs signal)) \<or>
      (\<exists>m. manualOverride (state self0) = Some m \<and> activeScreenId (state self0) \<noteq> Some m \<and>
           processSignal clock self0 signal = setActive self m Manual 1 (sig_timestampMs signal)) \<or>
      (\<exists>cand conf. manualOverride (state self0) = None \<and>
           Some cand \<noteq> activeScreenId (state self0) \<and>
           attributeToScreen self0 signal = Some cand \<and>
           processSignal clock self0 signal =
             setActive self cand (sig_type signal) conf (sig_timestampMs signal))"
    by blast
  have ov: "manualOverride (state self) = manualOverride (state self0)"
    using t by (simp add: tracked_def)
  from r show ?thesis
  proof (elim disjE exE conjE)
    assume "processSignal clock self0 signal = (self, [])"
    then show ?thesis using assms t by (simp add: overrideIsActive_tracked)
  next
    assume "processSignal clock self0 signal =
        (self, emitFocusStateRefresh clock self (sig_timestampMs signal))"
    then show ?thesis using assms t by (simp add: overrideIsActive_tracked)
  next
    fix m
    assume "manualOverride (state self0) = Some m"
      "processSignal clock self0 signal = setActive self m Manual 1 (sig_timestampMs signal)"
    then show ?thesis using ov by (simp add: overrideIsActive_def setActive_frame)
  next
    fix cand conf
    assume "manualOverride (state self0) = None"
      "processSignal clock self0 signal =
         setActive self cand (sig_type signal) conf (sig_timestampMs signal)"
    then show ?thesis using ov by (simp add: overrideIsActive_def setActive_frame)
  qed
qed

lemma handlePresenterControl_overrideIsActive:
  assumes "overrideIsActive self0"
  shows "overrideIsActive (fst (handlePresenterControl clock self0 control))"
  using handlePresenterControl_cases [of self0 clock control] assms
  by (auto simp: overrideIsActive_def setActive_frame split: option.splits)

lemma exec_overrideIsActive:
  assumes "overrideIsActive self"
  shows "overrideIsActive (fst (exec clock self c))"
proof (cases c)
  case (ProcessSignal signal)
  then show ?thesis using assms by (simp add: processSignal_overrideIsActive)
next
  case (HandlePresenterControl control)
  then show ?thesis using assms by (simp add: handlePresenterControl_overrideIsActive)
next
  case (UpdateDisplays ds)
  then show ?thesis using assms by (simp add: updateDisplays_def overrideIsActive_def)
next
  case SetOnFocusChange
  then show ?thesis using assms by (simp add: setOnFocusChange_def overrideIsActive_def)
next
  case SetOnFocusState
  then show ?thesis using assms by (simp add: setOnFocusState_def overrideIsActive_def)
qed

lemma run_fst_Cons:
  "fst (run self ((clock, c) # calls)) = fst (run (fst (exec clock self c)) calls)"
  by (simp split: prod.split)

lemma run_snd_Cons:
  "snd (run self ((clock, c) # calls)) =
     snd (exec clock self c) @ snd (run (fst (exec clock self c)) calls)"
  by (simp split: prod.split)

lemma run_overrideIsActive:
  "overrideIsActive self \<Longrightarrow> overrideIsActive (fst (run self calls))"
proof (induction calls arbitrary: self)
  case Nil
  then show ?case by simp
next
  case (Cons cc calls)
  obtain clock c where cc: "cc = (clock, c)" by (cases cc)
  have "overrideIsActive (fst (run (fst (exec clock self c)) calls))"
    using Cons.IH exec_overrideIsActive [OF Cons.prems] by blast
  then show ?case
    unfolding cc run_fst_Cons .
qed

lemma suppressed_when_unattributed:
  assumes "overrideIsActive self" and "attributeToScreen self signal = None"
  shows "processSignal clock self signal = (trackSignal self signal, [])"
proof -
  have attr: "attributeToScreen (trackSignal self signal) signal = None"
    using assms(2) attributeToScreen_displays [of "trackSignal self signal" self signal]
    by (simp add: trackSignal_frame)
  show ?thesis
  proof (cases "manualOverride (state self)")
    case None
    then show ?thesis
      by (simp add: processSignal_def Let_def trackSignal_frame attr)
  next
    case (Some m)
    then have "activeScreenId (state self) = Some m"
      using assms(1) by (simp add: overrideIsActive_def)
    with Some show ?thesis
      by (simp add: processSignal_def Let_def trackSignal_frame)
  qed
qed

text \<open>
  C6 (as the code has it). On an engine reached from the constructor by any calls, a
  signal on which attribution returns none emits nothing and changes nothing but what
  \<open>processSignal\<close> writes before attribution: \<open>lastActivityTs\<close> is set to the signal's
  timestamp when the type is neither PointerMove nor Hover, and the signal is counted in
  \<open>signalCounts\<close>. The active screen, the candidate and its timestamp, the sequence
  number, the other counters, the configuration and the displays are unchanged. The
  model has no exceptions: every call returns.
\<close>

theorem C6_unattributed_signal_suppressed:
  assumes "self = fst (run (FocusAlgorithm_new sid ds cfg) calls)"
    and "attributeToScreen self signal = None"
  shows "snd (processSignal clock self signal) = [] \<and>
    state (fst (processSignal clock self signal)) =
      (state self)\<lparr> lastActivityTs :=
         (if sig_type signal \<noteq> PointerMove \<and> sig_type signal \<noteq> Hover
          then sig_timestampMs signal else lastActivityTs (state self)) \<rparr> \<and>
    metrics (fst (processSignal clock self signal)) =
      (metrics self)\<lparr> signalCounts := (signalCounts (metrics self))
         (sig_type signal \<mapsto>
            (case signalCounts (metrics self) (sig_type signal) of
               None \<Rightarrow> 0 | Some n \<Rightarrow> n) + 1) \<rparr> \<and>
    displays (fst (processSignal clock self signal)) = displays self \<and>
    config (fst (processSignal clock self signal)) = config self \<and>
    sessionId (fst (processSignal clock self signal)) = sessionId self \<and>
    onFocusChange (fst (processSignal clock self signal)) = onFocusChange self \<and>
    onFocusState (fst (processSignal clock self signal)) = onFocusState self"
proof -
  have "overrideIsActive self"
    unfolding assms(1) by (intro run_overrideIsActive overrideIsActive_new)
  then have "processSignal clock self signal = (trackSignal self signal, [])"
    using assms(2) by (rule suppressed_when_unattributed)
  then show ?thesis
    by (simp add: trackSignal_def countSignal_def isActivitySignal_def Let_def)
qed


text \<open>C6 at the engine with no displays and a click at 1000.\<close>

theorem C6_unattributed_signal_suppressed_witness:
  "engine0 = fst (run (FocusAlgorithm_new ''session'' [] emptyPartial) []) \<and>
   attributeToScreen engine0 (makeSignal Click ''D2'' 1000) = None \<and>
   snd (processSignal 0 engine0 (makeSignal Click ''D2'' 1000)) = [] \<and>
   state (fst (processSignal 0 engine0 (makeSignal Click ''D2'' 1000))) =
     (state engine0)\<lparr> lastActivityTs := 1000 \<rparr> \<and>
   displays (fst (processSignal 0 engine0 (makeSignal Click ''D2'' 1000))) = displays engine0"
  using C6_unattributed_signal_suppressed
    [of engine0 "''session''" "[]" emptyPartial "[]" "makeSignal Click ''D2'' 1000" 0]
  by (simp add: engine0_def fixture_defs attributeToScreen_def map_has_def)

text \<open>
  C6 as stated fails: with no displays, attribution of a click returns none, and
  \<open>processSignal\<close> has already set \<open>lastActivityTs\<close> and counted the signal.
\<close>

theorem C6_state_change_counterexample:
  "attributeToScreen engine0 (makeSignal Click ''D2'' 1000) = None \<and>
   lastActivityTs (state engine0) = 0 \<and>
   lastActivityTs (state (fst (processSignal 0 engine0 (makeSignal Click ''D2'' 1000)))) = 1000 \<and>
   signalCounts (metrics engine0) Click = None \<and>
   signalCounts (metrics (fst (processSignal 0 engine0 (makeSignal Click ''D2'' 1000)))) Click
     = Some 1"
  by (simp add: engine0_def fixture_defs engine_defs)

section \<open>Sequence numbers and timestamps of the emitted events\<close>

lemma exec_emitsAt:
  "case callTimestamps [(clock, c)] of
     [] \<Rightarrow> focusChangeEvents (snd (exec clock self c)) = [] \<and>
          sequence (state (fst (exec clock self c))) = sequence (state self) \<and>
          (onFocusChange self \<longrightarrow> onFocusChange (fst (exec clock self c)))
   | ts # _ \<Rightarrow> emitsAt self (exec clock self c) ts"
  by (cases c) (simp_all add: processSignal_emitsAt handlePresenterControl_emitsAt
      updateDisplays_def setOnFocusChange_def setOnFocusState_def)

text \<open>
  One call: it emits no focus change and does not lower the sequence number (nor change
  it, when a focus-change callback is stored), or it emits one focus change with the
  incremented number. A stored callback stays stored.
\<close>

lemma exec_step:
  assumes "exec clock self c = (self1, out1)"
  shows "(focusChangeEvents out1 = [] \<and> sequence (state self) \<le> sequence (state self1) \<and>
       (onFocusChange self \<longrightarrow> sequence (state self1) = sequence (state self))) \<or>
     (\<exists>e. focusChangeEvents out1 = [e] \<and> ev_sequence e = Suc (sequence (state self)) \<and>
          sequence (state self1) = Suc (sequence (state self)))"
    and "onFocusChange self \<Longrightarrow> onFocusChange self1"
  using exec_emitsAt [where clock = clock and c = c and self = self] assms
  by (cases c; auto simp: emitsAt_def split: list.splits)+

lemma upt_step: "a # [Suc a ..< Suc a + n] = [a ..< a + Suc n]"
  by (simp add: upt_conv_Cons del: upt_Suc)

lemma run_registered:
  "onFocusChange self \<Longrightarrow>
   map ev_sequence (focusChangeEvents (snd (run self calls))) =
     [Suc (sequence (state self)) ..<
      Suc (sequence (state self)) + length (focusChangeEvents (snd (run self calls)))] \<and>
   sequence (state (fst (run self calls))) =
     sequence (state self) + length (focusChangeEvents (snd (run self calls)))"
proof (induction calls arbitrary: self)
  case Nil
  show ?case by simp
next
  case (Cons cc calls)
  obtain clock c where cc: "cc = (clock, c)" by (cases cc)
  obtain self1 out1 where ex: "exec clock self c = (self1, out1)" by (cases "exec clock self c")
  obtain self2 out2 where rn: "run self1 calls = (self2, out2)" by (cases "run self1 calls")
  have run_eq: "run self (cc # calls) = (self2, out1 @ out2)"
    by (simp add: cc ex rn)
  have reg1: "onFocusChange self1"
    using exec_step(2) [OF ex Cons.prems] .
  have ih: "map ev_sequence (focusChangeEvents out2) =
      [Suc (sequence (state self1)) ..<
       Suc (sequence (state self1)) + length (focusChangeEvents out2)]"
    "sequence (state self2) = sequence (state self1) + length (focusChangeEvents out2)"
    using Cons.IH [OF reg1] by (simp_all add: rn)
  have step: "(focusChangeEvents out1 = [] \<and> sequence (state self1) = sequence (state self)) \<or>
      (\<exists>e. focusChangeEvents out1 = [e] \<and> ev_sequence e = Suc (sequence (state self)) \<and>
          sequence (state self1) = Suc (sequence (state self)))"
    using exec_step(1) [OF ex] Cons.prems by blast
  then show ?case
  proof
    assume "focusChangeEvents out1 = [] \<and> sequence (state self1) = sequence (state self)"
    then show ?thesis
      using ih by (simp add: run_eq focusChangeEvents_append)
  next
    assume "\<exists>e. focusChangeEvents out1 = [e] \<and> ev_sequence e = Suc (sequence (state self)) \<and>
          sequence (state self1) = Suc (sequence (state self))"
    then obtain e where e: "focusChangeEvents out1 = [e]"
      "ev_sequence e = Suc (sequence (state self))"
      "sequence (state self1) = Suc (sequence (state self))" by blast
    have "map ev_sequence (focusChangeEvents (out1 @ out2)) =
        Suc (sequence (state self)) #
          [Suc (Suc (sequence (state self))) ..<
           Suc (Suc (sequence (state self))) + length (focusChangeEvents out2)]"
      using ih(1) e by (simp add: focusChangeEvents_append del: upt_Suc)
    also have "\<dots> = [Suc (sequence (state self)) ..<
        Suc (sequence (state self)) + Suc (length (focusChangeEvents out2))]"
      by (rule upt_step)
    finally have "map ev_sequence (focusChangeEvents (out1 @ out2)) =
        [Suc (sequence (state self)) ..<
         Suc (sequence (state self)) + length (focusChangeEvents (out1 @ out2))]"
      using e(1) by (simp add: focusChangeEvents_append del: upt_Suc)
    moreover have "sequence (state self2) =
        sequence (state self) + length (focusChangeEvents (out1 @ out2))"
      using ih(2) e by (simp add: focusChangeEvents_append)
    ultimately show ?thesis
      by (simp add: run_eq del: upt_Suc)
  qed
qed

text \<open>
  With or without a stored callback: the numbers of the emitted events increase, and lie
  above the engine's number before the calls and not above its number after them.
\<close>

lemma run_increasing:
  "sorted_wrt (<) (map ev_sequence (focusChangeEvents (snd (run self calls)))) \<and>
   (\<forall>e\<in>set (focusChangeEvents (snd (run self calls))).
      sequence (state self) < ev_sequence e \<and>
      ev_sequence e \<le> sequence (state (fst (run self calls)))) \<and>
   sequence (state self) \<le> sequence (state (fst (run self calls)))"
proof (induction calls arbitrary: self)
  case Nil
  show ?case by simp
next
  case (Cons cc calls)
  obtain clock c where cc: "cc = (clock, c)" by (cases cc)
  obtain self1 out1 where ex: "exec clock self c = (self1, out1)" by (cases "exec clock self c")
  obtain self2 out2 where rn: "run self1 calls = (self2, out2)" by (cases "run self1 calls")
  have run_eq: "run self (cc # calls) = (self2, out1 @ out2)"
    by (simp add: cc ex rn)
  have ih: "sorted_wrt (<) (map ev_sequence (focusChangeEvents out2))"
    "\<forall>e\<in>set (focusChangeEvents out2).
       sequence (state self1) < ev_sequence e \<and> ev_sequence e \<le> sequence (state self2)"
    "sequence (state self1) \<le> sequence (state self2)"
    using Cons.IH [of self1] by (simp_all add: rn)
  from exec_step(1) [OF ex] show ?case
  proof (elim disjE exE conjE)
    assume "focusChangeEvents out1 = []" "sequence (state self) \<le> sequence (state self1)"
    then show ?thesis
      using ih by (auto simp: run_eq focusChangeEvents_append)
  next
    fix e
    assume "focusChangeEvents out1 = [e]" "ev_sequence e = Suc (sequence (state self))"
      "sequence (state self1) = Suc (sequence (state self))"
    then show ?thesis
      using ih by (auto simp: run_eq focusChangeEvents_append)
  qed
qed

lemma run_append:
  "fst (run self (xs @ ys)) = fst (run (fst (run self xs)) ys) \<and>
   snd (run self (xs @ ys)) = snd (run self xs) @ snd (run (fst (run self xs)) ys)"
proof (induction xs arbitrary: self)
  case Nil
  show ?case by simp
next
  case (Cons cc xs)
  obtain clock c where cc: "cc = (clock, c)" by (cases cc)
  show ?case
    using Cons.IH [of "fst (exec clock self c)"]
    by (simp add: cc run_fst_Cons run_snd_Cons del: run.simps)
qed

lemma sorted_lower: "sorted (t1 # ts) \<Longrightarrow> t0 \<le> t1 \<Longrightarrow> sorted (t0 # (ts::real list))"
  by auto

lemma run_timestamps:
  "sorted (t0 # callTimestamps calls) \<Longrightarrow>
   sorted (t0 # map ev_timestampMs (focusChangeEvents (snd (run self calls))))"
proof (induction calls arbitrary: self t0)
  case Nil
  show ?case by simp
next
  case (Cons cc calls)
  obtain clock c where cc: "cc = (clock, c)" by (cases cc)
  obtain self1 out1 where ex: "exec clock self c = (self1, out1)" by (cases "exec clock self c")
  obtain self2 out2 where rn: "run self1 calls = (self2, out2)" by (cases "run self1 calls")
  have run_eq: "focusChangeEvents (snd (run self (cc # calls))) =
      focusChangeEvents out1 @ focusChangeEvents out2"
    by (simp add: cc ex rn focusChangeEvents_append)
  show ?case
  proof (cases "callTimestamps [(clock, c)]")
    case Nil
    then have quiet: "focusChangeEvents out1 = []"
      using exec_emitsAt [where clock = clock and c = c and self = self] by (simp add: ex)
    have "callTimestamps (cc # calls) = callTimestamps calls"
      using Nil by (cases c) (simp_all add: cc)
    with Cons.prems have "sorted (t0 # callTimestamps calls)" by simp
    from Cons.IH [OF this, of self1] show ?thesis
      by (simp add: run_eq rn quiet)
  next
    case (Cons t1 rest)
    then have ts: "callTimestamps (cc # calls) = t1 # callTimestamps calls"
      by (cases c) (simp_all add: cc)
    have le: "t0 \<le> t1" and srt: "sorted (t1 # callTimestamps calls)"
      using Cons.prems unfolding ts by simp_all
    have ih: "sorted (t1 # map ev_timestampMs (focusChangeEvents out2))"
      using Cons.IH [OF srt, of self1] by (simp add: rn)
    have "emitsAt self (self1, out1) t1"
      using exec_emitsAt [where clock = clock and c = c and self = self] Cons by (simp add: ex)
    then have "focusChangeEvents out1 = [] \<or>
        (\<exists>e. focusChangeEvents out1 = [e] \<and> ev_timestampMs e = t1)"
      by (cases "focusChangeEvents out1") (auto simp: emitsAt_def split: list.splits)
    then show ?thesis
    proof
      assume "focusChangeEvents out1 = []"
      then show ?thesis
        using sorted_lower [OF ih le] by (simp add: run_eq)
    next
      assume "\<exists>e. focusChangeEvents out1 = [e] \<and> ev_timestampMs e = t1"
      then obtain e where "focusChangeEvents out1 = [e]" "ev_timestampMs e = t1" by blast
      then show ?thesis
        using ih le by (auto simp: run_eq)
    qed
  qed
qed

text \<open>
  C9 (as the code has it). For every sequence of calls on an engine from the constructor
  (the registrations of callbacks among them), the sequence numbers of the focus changes
  delivered to the callback are strictly increasing, and when the timestamps of the calls
  are non-decreasing, so are the timestamps of the events. The first delivered event has
  sequence number 1, and the numbers are 1, 2, 3, ..., when the callback was stored before
  the first focus change: that is, when after some initial calls the callback is stored
  and the engine's sequence number is still 0.
\<close>

theorem C9_sequence_and_timestamps:
  "sorted_wrt (<)
     (map ev_sequence (focusChangeEvents (snd (run (FocusAlgorithm_new sid ds cfg) calls)))) \<and>
   (sorted (callTimestamps calls) \<longrightarrow>
      sorted (map ev_timestampMs
        (focusChangeEvents (snd (run (FocusAlgorithm_new sid ds cfg) calls))))) \<and>
   (\<forall>pre rest.
      calls = pre @ rest \<and>
      onFocusChange (fst (run (FocusAlgorithm_new sid ds cfg) pre)) \<and>
      sequence (state (fst (run (FocusAlgorithm_new sid ds cfg) pre))) = 0 \<longrightarrow>
      map ev_sequence (focusChangeEvents (snd (run (FocusAlgorithm_new sid ds cfg) calls))) =
        [1 ..< Suc (length
           (focusChangeEvents (snd (run (FocusAlgorithm_new sid ds cfg) calls))))] \<and>
      (focusChangeEvents (snd (run (FocusAlgorithm_new sid ds cfg) calls)) \<noteq> [] \<longrightarrow>
         ev_sequence (hd (focusChangeEvents (snd (run (FocusAlgorithm_new sid ds cfg) calls))))
           = 1))"
proof -
  let ?new = "FocusAlgorithm_new sid ds cfg"
  let ?evs = "focusChangeEvents (snd (run ?new calls))"
  have incr: "sorted_wrt (<) (map ev_sequence ?evs)"
    using run_increasing [of ?new calls] by blast
  have times: "sorted (map ev_timestampMs ?evs)" if srt: "sorted (callTimestamps calls)"
  proof (cases "callTimestamps calls")
    case Nil
    then have "sorted (0 # callTimestamps calls)" by simp
    from run_timestamps [OF this, of ?new] show ?thesis by simp
  next
    case (Cons t ts)
    then have "sorted (t # callTimestamps calls)" using srt by auto
    from run_timestamps [OF this, of ?new] show ?thesis by simp
  qed
  have seqs_one: "map ev_sequence ?evs = [1 ..< Suc (length ?evs)]"
    if split: "calls = pre @ rest" and reg: "onFocusChange (fst (run ?new pre))"
      and zero: "sequence (state (fst (run ?new pre))) = 0" for pre rest
  proof -
    let ?mid = "fst (run ?new pre)"
    have none: "focusChangeEvents (snd (run ?new pre)) = []"
    proof (rule ccontr)
      assume "focusChangeEvents (snd (run ?new pre)) \<noteq> []"
      then obtain e where "e \<in> set (focusChangeEvents (snd (run ?new pre)))"
        by (cases "focusChangeEvents (snd (run ?new pre))") auto
      with run_increasing [of ?new pre]
      have "sequence (state ?new) < ev_sequence e" "ev_sequence e \<le> sequence (state ?mid)"
        by blast+
      with zero show False by simp
    qed
    have evs: "?evs = focusChangeEvents (snd (run ?mid rest))"
      using run_append [of ?new pre rest] none
      by (simp add: split focusChangeEvents_append)
    show ?thesis
      using run_registered [OF reg, of rest] zero by (simp add: evs)
  qed
  have first_one: "ev_sequence (hd ?evs) = 1"
    if "calls = pre @ rest" "onFocusChange (fst (run ?new pre))"
      "sequence (state (fst (run ?new pre))) = 0" and ne: "?evs \<noteq> []" for pre rest
  proof -
    have seqs: "map ev_sequence ?evs = [1 ..< Suc (length ?evs)]"
      using that(1-3) by (rule seqs_one)
    have "1 < Suc (length ?evs)" using ne by simp
    then have "hd [1 ..< Suc (length ?evs)] = 1" by (rule hd_upt)
    then have "hd (map ev_sequence ?evs) = 1" by (simp only: seqs)
    then show ?thesis using ne by (simp add: hd_map)
  qed
  show ?thesis
    apply (intro conjI allI impI)
       apply (rule incr)
      apply (erule times)
     apply (elim conjE, erule (2) seqs_one)
    apply (elim conjE, erule (3) first_one)
    done
qed

text \<open>
  C9 at a session that stores the callback first, then has two clicks on D2 and a manual
  selection of D1.
\<close>

theorem C9_sequence_and_timestamps_witness:
  "sorted (callTimestamps ((0, SetOnFocusChange) # threeCalls)) \<and>
   onFocusChange
     (fst (run (FocusAlgorithm_new ''session'' [D1, D2, D3] emptyPartial)
        [(0, SetOnFocusChange)])) \<and>
   sequence (state
     (fst (run (FocusAlgorithm_new ''session'' [D1, D2, D3] emptyPartial)
        [(0, SetOnFocusChange)]))) = 0 \<and>
   map ev_sequence (focusChangeEvents (snd
     (run (FocusAlgorithm_new ''session'' [D1, D2, D3] emptyPartial)
        ((0, SetOnFocusChange) # threeCalls)))) = [1, 2] \<and>
   map ev_timestampMs (focusChangeEvents (snd
     (run (FocusAlgorithm_new ''session'' [D1, D2, D3] emptyPartial)
        ((0, SetOnFocusChange) # threeCalls)))) = [1400, 1500] \<and>
   sorted_wrt (<) (map ev_sequence (focusChangeEvents (snd
     (run (FocusAlgorithm_new ''session'' [D1, D2, D3] emptyPartial)
        ((0, SetOnFocusChange) # threeCalls))))) \<and>
   sorted (map ev_timestampMs (focusChangeEvents (snd
     (run (FocusAlgorithm_new ''session'' [D1, D2, D3] emptyPartial)
        ((0, SetOnFocusChange) # threeCalls)))))"
proof -
  let ?new = "FocusAlgorithm_new ''session'' [D1, D2, D3] emptyPartial"
  let ?calls = "(0, SetOnFocusChange) # threeCalls"
  have evs: "map ev_sequence (focusChangeEvents (snd (run ?new ?calls))) = [1, 2] \<and>
      map ev_timestampMs (focusChangeEvents (snd (run ?new ?calls))) = [1400, 1500]"
    by (simp add: threeCalls_def manualSelect_def fixture_defs engine_defs)
  have srt: "sorted (callTimestamps ?calls)"
    by (simp add: threeCalls_def manualSelect_def makeSignal_def)
  have reg: "onFocusChange (fst (run ?new [(0, SetOnFocusChange)])) \<and>
      sequence (state (fst (run ?new [(0, SetOnFocusChange)]))) = 0"
    by (simp add: setOnFocusChange_def FocusAlgorithm_new_def)
  show ?thesis
    using C9_sequence_and_timestamps [of "''session''" "[D1, D2, D3]" emptyPartial ?calls]
      evs srt reg
    by simp
qed

text \<open>
  C9 as stated fails: a manual selection made before the focus-change callback is stored
  uses sequence number 1 and is delivered to no one, so the first event the callback
  receives, for the second manual selection, has sequence number 2.
\<close>

theorem C9_late_listener_counterexample:
  "map ev_sequence (focusChangeEvents (snd
     (run (FocusAlgorithm_new ''session'' [D1, D2, D3] emptyPartial) lateListener))) = [2] \<and>
   ev_sequence (hd (focusChangeEvents (snd
     (run (FocusAlgorithm_new ''session'' [D1, D2, D3] emptyPartial) lateListener)))) \<noteq> 1"
  by (simp add: lateListener_def manualSelect_def fixture_defs engine_defs)

section \<open>The snapshot of an engine without displays\<close>

lemma attributeToScreen_no_displays:
  "displays self = [] \<Longrightarrow> attributeToScreen self signal = None"
  by (cases "sig_windowDisplayId signal"; cases "sig_x signal"; cases "sig_y signal")
     (simp_all add: attributeToScreen_def map_has_def)

lemma processSignal_noDisplay:
  assumes "noDisplay self0"
  shows "noDisplay (fst (processSignal clock self0 signal))"
  using processSignal_cases [of self0 clock signal] assms
    attributeToScreen_no_displays [of self0 signal]
  by (auto simp: noDisplay_def tracked_def)

lemma handlePresenterControl_noDisplay:
  assumes "noDisplay self0"
  shows "noDisplay (fst (handlePresenterControl clock self0 control))"
  using handlePresenterControl_cases [of self0 clock control] assms
  by (auto simp: noDisplay_def map_has_def)

lemma run_noDisplay:
  "noDisplay self \<Longrightarrow> \<forall>c\<in>set calls. \<not> isUpdateDisplays (snd c) \<Longrightarrow>
   noDisplay (fst (run self calls))"
proof (induction calls arbitrary: self)
  case Nil
  then show ?case by simp
next
  case (Cons cc calls)
  obtain clock c where cc: "cc = (clock, c)" by (cases cc)
  have "\<not> isUpdateDisplays c" using Cons.prems(2) by (simp add: cc)
  then have "noDisplay (fst (exec clock self c))"
  proof (cases c)
    case (ProcessSignal signal)
    then show ?thesis using Cons.prems(1) by (simp add: processSignal_noDisplay)
  next
    case (HandlePresenterControl control)
    then show ?thesis using Cons.prems(1) by (simp add: handlePresenterControl_noDisplay)
  next
    case (UpdateDisplays ds)
    then show ?thesis using \<open>\<not> isUpdateDisplays c\<close> by (simp add: isUpdateDisplays_def)
  next
    case SetOnFocusChange
    then show ?thesis using Cons.prems(1) by (simp add: setOnFocusChange_def noDisplay_def)
  next
    case SetOnFocusState
    then show ?thesis using Cons.prems(1) by (simp add: setOnFocusState_def noDisplay_def)
  qed
  moreover have "\<forall>c\<in>set calls. \<not> isUpdateDisplays (snd c)"
    using Cons.prems(2) by simp
  ultimately have "noDisplay (fst (run (fst (exec clock self c)) calls))"
    by (rule Cons.IH)
  then show ?case
    unfolding cc run_fst_Cons .
qed

text \<open>
  C10 (as the code has it). The snapshot never has an empty \<open>activeScreenId\<close>. An
  engine constructed with no displays has no active screen, and keeps none under any
  calls as long as \<open>updateDisplays\<close> has not replaced the display map (a manual selection
  is a no-op on the empty map); until then its snapshot reports the literal
  \<open>screen_1\<close>, which is not a key of its display map.
\<close>

theorem C10_getState_placeholder:
  "snap_activeScreenId (getState clock self) \<noteq> [] \<and>
   ((\<forall>c\<in>set calls. \<not> isUpdateDisplays (snd c)) \<longrightarrow>
      activeScreenId (state (fst (run (FocusAlgorithm_new sid [] cfg) calls))) = None \<and>
      snap_activeScreenId (getState clock (fst (run (FocusAlgorithm_new sid [] cfg) calls))) =
        ''screen_1'' \<and>
      \<not> map_has (displays (fst (run (FocusAlgorithm_new sid [] cfg) calls))) ''screen_1'')"
proof -
  have never_empty: "snap_activeScreenId (getState clock self) \<noteq> []"
    by (simp add: getState_def split: option.split)
  have init: "noDisplay (FocusAlgorithm_new sid [] cfg)"
    by (simp add: noDisplay_def FocusAlgorithm_new_def displayMap_def)
  have "noDisplay (fst (run (FocusAlgorithm_new sid [] cfg) calls))"
    if "\<forall>c\<in>set calls. \<not> isUpdateDisplays (snd c)"
    using init that by (rule run_noDisplay)
  then show ?thesis
    using never_empty by (simp add: noDisplay_def getState_def map_has_def)
qed

text \<open>C10 after a click and a freeze toggle.\<close>

theorem C10_getState_placeholder_witness:
  "\<not> isUpdateDisplays (snd (twoCalls ! 0)) \<and> \<not> isUpdateDisplays (snd (twoCalls ! 1)) \<and>
   length twoCalls = 2 \<and>
   activeScreenId (state (fst (run (FocusAlgorithm_new ''session'' [] emptyPartial) twoCalls)))
     = None \<and>
   snap_activeScreenId
     (getState 7 (fst (run (FocusAlgorithm_new ''session'' [] emptyPartial) twoCalls)))
     = ''screen_1'' \<and>
   \<not> map_has (displays (fst (run (FocusAlgorithm_new ''session'' [] emptyPartial) twoCalls)))
     ''screen_1''"
  using C10_getState_placeholder [of 7 engine0 twoCalls "''session''" emptyPartial]
  by (simp add: twoCalls_def isUpdateDisplays_def)

text \<open>
  C10 as stated fails. On an engine constructed with no displays, and with no manual
  selection: after \<open>updateDisplays\<close> with a display named \<open>screen_1\<close> the snapshot
  still reports \<open>screen_1\<close> (the active screen is still none), which is now a key of
  the display map; and after \<open>updateDisplays\<close> with D1 and D2 and two clicks on D2 the
  snapshot reports D2.
\<close>

theorem C10_updateDisplays_counterexample:
  "activeScreenId (state (fst (run (FocusAlgorithm_new ''session'' [] emptyPartial)
      plugScreen1))) = None \<and>
   snap_activeScreenId (getState 0 (fst (run (FocusAlgorithm_new ''session'' [] emptyPartial)
      plugScreen1))) = ''screen_1'' \<and>
   map_has (displays (fst (run (FocusAlgorithm_new ''session'' [] emptyPartial) plugScreen1)))
     ''screen_1'' \<and>
   snap_activeScreenId (getState 0 (fst (run (FocusAlgorithm_new ''session'' [] emptyPartial)
      plugAndClick))) = ''D2''"
  by (simp add: plugScreen1_def plugAndClick_def fixture_defs engine_defs)

section \<open>Pointer attribution\<close>












lemma distanceTo_right:
  assumes "db_x b + db_width b \<le> x" "0 \<le> db_width b" "db_y b \<le> y" "y \<le> db_y b + db_height b"
  shows "distanceTo b x y = x - (db_x b + db_width b)"
proof -
  have "max (max (db_x b - x) 0) (x - (db_x b + db_width b)) = x - (db_x b + db_width b)"
    using assms(1,2) by simp
  moreover have "max (max (db_y b - y) 0) (y - (db_y b + db_height b)) = 0"
    using assms(3,4) by simp
  ultimately show ?thesis
    using assms(1) by (simp add: distanceTo_def Let_def)
qed

lemma distanceTo_left:
  assumes "x \<le> db_x b" "0 \<le> db_width b" "db_y b \<le> y" "y \<le> db_y b + db_height b"
  shows "distanceTo b x y = db_x b - x"
proof -
  have "max (max (db_x b - x) 0) (x - (db_x b + db_width b)) = db_x b - x"
    using assms(1,2) by simp
  moreover have "max (max (db_y b - y) 0) (y - (db_y b + db_height b)) = 0"
    using assms(3,4) by simp
  ultimately show ?thesis
    using assms(1) by (simp add: distanceTo_def Let_def)
qed

lemma displays_engine3: "displays engine3 = [(''D1'', D1), (''D2'', D2), (''D3'', D3)]"
  by (simp add: engine3_def listening_def setOnFocusChange_def setOnFocusState_def
      FocusAlgorithm_new_def displayMap_def D1_def D2_def D3_def display_def)

lemma gap_point_nearest:
  "attributeToScreen engine3 gapSignal = Some ''D2'' \<and>
   proximityTo D1 4000 540 = 1 / 2081 \<and>
   proximityTo D2 4000 540 = 1 / 161 \<and>
   proximityTo D3 4000 540 = 1 / 481"
proof -
  have d1: "distanceTo D1 4000 540 = 2080"
    by (simp add: distanceTo_right D1_def display_def)
  have d2: "distanceTo D2 4000 540 = 160"
    by (simp add: distanceTo_right D2_def display_def)
  have d3: "distanceTo D3 4000 540 = 480"
    by (simp add: distanceTo_left D3_def display_def)
  have c: "\<not> containsPoint D1 4000 540" "\<not> containsPoint D2 4000 540"
    "\<not> containsPoint D3 4000 540"
    by (simp_all add: containsPoint_def D1_def D2_def D3_def display_def)
  show ?thesis
    by (simp add: attributeToScreen_def gapSignal_def displays_engine3 c proximityTo_def
        d1 d2 d3)
qed




end
